theory Spec2Isabelle
  imports Complex_Main "HOL-Library.List_Lexorder" "HOL-Library.Char_ord" "HOL-Library.Multiset"
begin

section \<open>JavaScript values used by the routes\<close>

text \<open>
  The request body of \<^verbatim>\<open>POST /api/cart\<close> is parsed JSON, so \<^verbatim>\<open>qty\<close> may be any
  JSON value, or absent (\<^verbatim>\<open>undefined\<close>). Numbers are modelled as exact rationals: the
  finite doubles the routes compare with zero, store and multiply, without the
  rounding of double arithmetic and without the infinities. A sum or product of the
  model is the one of the code where double arithmetic is exact, as it is on the
  integers and halves that the stated values below are computed from; no statement
  below gives the value of a total at other quantities. \<^verbatim>\<open>NaN\<close> arises in one place,
  the arithmetic of \<^verbatim>\<open>getCart\<close>, where a missing price makes the product \<^verbatim>\<open>NaN\<close>;
  the type \<open>jsnum\<close> adds it to the rationals.
\<close>

datatype jsval =
    JUndefined
  | JNull
  | JBool bool
  | JNumber rat
  | JString string
  | JArray "jsval list"
  | JObject "(string \<times> jsval) list"

datatype jsnum = Fin rat | NaN

text \<open>\<^verbatim>\<open>undefined\<close> converts to \<^verbatim>\<open>NaN\<close> when it meets \<^verbatim>\<open>*\<close>.\<close>

fun to_number :: "rat option \<Rightarrow> jsnum" where
  "to_number None = NaN"
| "to_number (Some x) = Fin x"

fun js_mul :: "jsnum \<Rightarrow> jsnum \<Rightarrow> jsnum" where
  "js_mul (Fin a) (Fin b) = Fin (a * b)"
| "js_mul _ _ = NaN"

fun js_add :: "jsnum \<Rightarrow> jsnum \<Rightarrow> jsnum" where
  "js_add (Fin a) (Fin b) = Fin (a + b)"
| "js_add _ _ = NaN"

text \<open>\<^verbatim>\<open>Array.prototype.findIndex\<close>: the first index whose element satisfies the
  predicate, \<open>-1\<close> when there is none.\<close>

fun findIndex :: "('a \<Rightarrow> bool) \<Rightarrow> 'a list \<Rightarrow> int" where
  "findIndex P [] = - 1"
| "findIndex P (x # xs) =
     (if P x then 0 else (let i = findIndex P xs in if i < 0 then - 1 else i + 1))"

text \<open>\<^verbatim>\<open>String.prototype.slice(a, b)\<close> for \<open>0 \<le> a \<le> b\<close>.\<close>

definition slice :: "string \<Rightarrow> nat \<Rightarrow> nat \<Rightarrow> string" where
  "slice s a b = take (b - a) (drop a s)"

section \<open>Data model\<close>

record product =
  p_id :: string
  p_name :: string
  p_price :: rat
  p_image :: string

text \<open>An element of \<^verbatim>\<open>mem.cart\<close>: \<^verbatim>\<open>{userId, productId, qty}\<close>.\<close>

record cart_line =
  userId :: string
  productId :: string
  qty :: rat

text \<open>A row of the table \<^verbatim>\<open>cart\<close>: the autoincremented primary key \<^verbatim>\<open>id\<close> and the
  columns \<^verbatim>\<open>userId\<close>, \<^verbatim>\<open>productId\<close>, \<^verbatim>\<open>qty\<close>.\<close>

record cart_row =
  c_id :: nat
  line :: cart_line

text \<open>
  An element of \<^verbatim>\<open>items\<close>. The SQL branch builds it with all five properties. The
  in-memory branch builds it as \<^verbatim>\<open>{ ...map.get(c.productId), qty: c.qty }\<close>: when the
  lookup yields \<^verbatim>\<open>undefined\<close> the spread contributes nothing and the four product
  properties are absent (\<open>None\<close>).
\<close>

record item =
  it_id :: "string option"
  it_name :: "string option"
  it_price :: "rat option"
  it_image :: "string option"
  it_qty :: rat

record cart_view =
  items :: "item list"
  total :: jsnum

record receipt =
  r_id :: string
  r_total :: jsnum
  r_items :: "item list"
  r_timestamp :: string

datatype body =
    ProductsBody "product list"
  | CartBody cart_view
  | ReceiptBody receipt
  | ErrorBody string
  | HealthBody bool

record response =
  status :: nat
  body :: body

text \<open>The parsed body of \<^verbatim>\<open>POST /api/cart\<close>. The REST contract types \<^verbatim>\<open>productId\<close> as a
  string; \<open>None\<close> is the absent property (also the absent body, \<^verbatim>\<open>req.body || {}\<close>).\<close>

record request_body =
  b_productId :: "string option"
  b_qty :: jsval

record db_state =
  db_products :: "product list"
  db_cart :: "cart_row list"
  db_seq :: nat

record mem_state =
  mem_products :: "product list"
  mem_cart :: "cart_line list"

text \<open>The process state: the flag \<^verbatim>\<open>useDb\<close>, the SQLite database and the object \<^verbatim>\<open>mem\<close>.\<close>

record server =
  useDb :: bool
  db :: db_state
  mem :: mem_state

definition DEMO_USER :: string where
  "DEMO_USER = ''demo''"

definition seed :: "product list" where
  "seed =
    [\<lparr>p_id = ''p1'', p_name = ''Bluetooth Headphones'', p_price = 1999,
       p_image = [CHR 0xF0, CHR 0x9F, CHR 0x8E, CHR 0xA7]\<rparr>,
     \<lparr>p_id = ''p2'', p_name = ''Wireless Mouse'', p_price = 699,
       p_image = [CHR 0xF0, CHR 0x9F, CHR 0x96, CHR 0xB1, CHR 0xEF, CHR 0xB8, CHR 0x8F]\<rparr>,
     \<lparr>p_id = ''p3'', p_name = ''Mechanical Keyboard'', p_price = 3499,
       p_image = [CHR 0xE2, CHR 0x8C, CHR 0xA8, CHR 0xEF, CHR 0xB8, CHR 0x8F]\<rparr>,
     \<lparr>p_id = ''p4'', p_name = ''USB-C Cable'', p_price = 299,
       p_image = [CHR 0xF0, CHR 0x9F, CHR 0x94, CHR 0x8C]\<rparr>,
     \<lparr>p_id = ''p5'', p_name = ''Portable SSD 500GB'', p_price = 4999,
       p_image = [CHR 0xF0, CHR 0x9F, CHR 0x92, CHR 0xBE]\<rparr>,
     \<lparr>p_id = ''p6'', p_name = ''Smartwatch'', p_price = 5999,
       p_image = [CHR 0xE2, CHR 0x8C, CHR 0x9A]\<rparr>,
     \<lparr>p_id = ''p7'', p_name = ''Phone Stand'', p_price = 249,
       p_image = [CHR 0xF0, CHR 0x9F, CHR 0x93, CHR 0xB1]\<rparr>]"

definition mem_initial :: mem_state where
  "mem_initial = \<lparr>mem_products = seed, mem_cart = []\<rparr>"

section \<open>The SQL statements\<close>

text \<open>
  Each statement the routes send is a function on the tables. A table is the list of
  its rows by rowid: a new row gets the largest rowid and comes last. Statements are
  taken to run without input/output failure; a constraint violation is an error value. The column \<^verbatim>\<open>qty\<close> is declared
  \<^verbatim>\<open>INTEGER\<close>, which in SQLite is an affinity and not a constraint: a number that is
  not an integer is stored and read back as it is.
\<close>

datatype sql_error = SQLITE_CONSTRAINT

text \<open>\<^verbatim>\<open>SELECT id FROM products WHERE id = ?\<close> through \<^verbatim>\<open>get\<close>: the first row, if any.\<close>

definition select_product :: "db_state \<Rightarrow> string \<Rightarrow> product option" where
  "select_product d pid = find (\<lambda>p. p_id p = pid) (db_products d)"

text \<open>\<^verbatim>\<open>SELECT * FROM cart WHERE userId = ? AND productId = ?\<close> through \<^verbatim>\<open>get\<close>.\<close>

definition select_cart_line :: "db_state \<Rightarrow> string \<Rightarrow> string \<Rightarrow> cart_row option" where
  "select_cart_line d uid pid =
     find (\<lambda>r. userId (line r) = uid \<and> productId (line r) = pid) (db_cart d)"

text \<open>\<^verbatim>\<open>UPDATE cart SET qty = ? WHERE id = ?\<close>.\<close>

definition update_qty :: "db_state \<Rightarrow> rat \<Rightarrow> nat \<Rightarrow> db_state" where
  "update_qty d q rid =
     d\<lparr>db_cart := map (\<lambda>r. if c_id r = rid then r\<lparr>line := (line r)\<lparr>qty := q\<rparr>\<rparr> else r) (db_cart d)\<rparr>"

text \<open>
  \<^verbatim>\<open>INSERT INTO cart (userId, productId, qty) VALUES (?,?,?)\<close>. The table declares
  \<^verbatim>\<open>UNIQUE(userId, productId)\<close> and a foreign key to \<^verbatim>\<open>products(id)\<close>, enforced since
  \<^verbatim>\<open>initDb\<close> sets \<^verbatim>\<open>PRAGMA foreign_keys = ON\<close>. \<^verbatim>\<open>AUTOINCREMENT\<close> gives the new row
  an id one above every id the table ever held.
\<close>

definition next_id :: "db_state \<Rightarrow> nat" where
  "next_id d = Suc (fold max (map c_id (db_cart d)) (db_seq d))"

definition insert_cart :: "db_state \<Rightarrow> string \<Rightarrow> string \<Rightarrow> rat \<Rightarrow> sql_error + db_state" where
  "insert_cart d uid pid q =
     (if select_cart_line d uid pid \<noteq> None then Inl SQLITE_CONSTRAINT
      else if select_product d pid = None then Inl SQLITE_CONSTRAINT
      else Inr (d\<lparr>db_cart := db_cart d @
                    [\<lparr>c_id = next_id d, line = \<lparr>userId = uid, productId = pid, qty = q\<rparr>\<rparr>],
                  db_seq := next_id d\<rparr>))"

text \<open>\<^verbatim>\<open>DELETE FROM cart WHERE userId = ? AND productId = ?\<close>.\<close>

definition delete_cart_line :: "db_state \<Rightarrow> string \<Rightarrow> string \<Rightarrow> db_state" where
  "delete_cart_line d uid pid =
     d\<lparr>db_cart := filter (\<lambda>r. \<not> (userId (line r) = uid \<and> productId (line r) = pid)) (db_cart d)\<rparr>"

text \<open>\<^verbatim>\<open>DELETE FROM cart WHERE userId = ?\<close>.\<close>

definition delete_cart_user :: "db_state \<Rightarrow> string \<Rightarrow> db_state" where
  "delete_cart_user d uid = d\<lparr>db_cart := filter (\<lambda>r. userId (line r) \<noteq> uid) (db_cart d)\<rparr>"

text \<open>
  \<^verbatim>\<open>SELECT c.productId as id, p.name, p.price, p.image, c.qty FROM cart c
  JOIN products p ON p.id = c.productId WHERE c.userId = ?\<close>, followed by the
  \<^verbatim>\<open>rows.map\<close> that copies the five columns into an item. An inner join: a cart row
  yields one result row for each product row with its \<^verbatim>\<open>productId\<close>, and none when
  there is no such product. The query has no \<^verbatim>\<open>ORDER BY\<close>. SQLite finds the rows of
  the user through the index of \<^verbatim>\<open>UNIQUE(userId, productId)\<close>, so they come by
  \<^verbatim>\<open>productId\<close> in the byte order of the text, rows with the same \<^verbatim>\<open>productId\<close> by
  rowid; the order on \<open>string\<close> is that order.
\<close>

definition select_cart_join :: "db_state \<Rightarrow> string \<Rightarrow> item list" where
  "select_cart_join d uid =
     concat (map (\<lambda>c. map (\<lambda>p. \<lparr>it_id = Some (productId (line c)), it_name = Some (p_name p),
                                 it_price = Some (p_price p), it_image = Some (p_image p),
                                 it_qty = qty (line c)\<rparr>)
                          (filter (\<lambda>p. p_id p = productId (line c)) (db_products d)))
                 (sort_key (\<lambda>c. productId (line c))
                    (filter (\<lambda>c. userId (line c) = uid) (db_cart d))))"

section \<open>Start-up\<close>

text \<open>
  \<^verbatim>\<open>initDb\<close>: the argument is the database file as \<^verbatim>\<open>openDb\<close> and the two
  \<^verbatim>\<open>CREATE TABLE IF NOT EXISTS\<close> leave it, or \<open>None\<close> when any of that throws. An empty
  product table is seeded; a failure clears \<^verbatim>\<open>useDb\<close> for the life of the process.
\<close>

definition empty_db :: db_state where
  "empty_db = \<lparr>db_products = [], db_cart = [], db_seq = 0\<rparr>"

definition initDb :: "db_state option \<Rightarrow> server" where
  "initDb opened =
     (case opened of
        None \<Rightarrow> \<lparr>useDb = False, db = empty_db, mem = mem_initial\<rparr>
      | Some d \<Rightarrow>
          \<lparr>useDb = True,
           db = (if length (db_products d) = 0 then d\<lparr>db_products := seed\<rparr> else d),
           mem = mem_initial\<rparr>)"

section \<open>Routes\<close>

definition error_response :: "nat \<Rightarrow> string \<Rightarrow> response" where
  "error_response code msg = \<lparr>status = code, body = ErrorBody msg\<rparr>"

text \<open>\<^verbatim>\<open>new Map(mem.products.map(p => [p.id, p]))\<close>: a later entry with the same key
  replaces an earlier one.\<close>

definition product_map :: "product list \<Rightarrow> (string \<rightharpoonup> product)" where
  "product_map ps = map_of (rev (map (\<lambda>p. (p_id p, p)) ps))"

text \<open>\<^verbatim>\<open>{ ...map.get(c.productId), qty: c.qty }\<close>.\<close>

definition spread_item :: "product option \<Rightarrow> rat \<Rightarrow> item" where
  "spread_item po q =
     (case po of
        None \<Rightarrow> \<lparr>it_id = None, it_name = None, it_price = None, it_image = None, it_qty = q\<rparr>
      | Some p \<Rightarrow> \<lparr>it_id = Some (p_id p), it_name = Some (p_name p), it_price = Some (p_price p),
                   it_image = Some (p_image p), it_qty = q\<rparr>)"

definition cart_items :: "server \<Rightarrow> item list" where
  "cart_items s =
     (if useDb s then select_cart_join (db s) DEMO_USER
      else map (\<lambda>c. spread_item (product_map (mem_products (mem s)) (productId c)) (qty c))
             (filter (\<lambda>c. userId c = DEMO_USER) (mem_cart (mem s))))"

text \<open>\<^verbatim>\<open>items.reduce((sum, it) => sum + it.price * it.qty, 0)\<close>.\<close>

definition cart_total :: "item list \<Rightarrow> jsnum" where
  "cart_total its =
     foldl (\<lambda>sum it. js_add sum (js_mul (to_number (it_price it)) (Fin (it_qty it)))) (Fin 0) its"

definition getCart :: "server \<Rightarrow> response \<times> server" where
  "getCart s =
     (let its = cart_items s; tot = cart_total its
      in (\<lparr>status = 200, body = CartBody \<lparr>items = its, total = tot\<rparr>\<rparr>, s))"

text \<open>\<^verbatim>\<open>GET /api/products\<close>.\<close>

definition get_products :: "server \<Rightarrow> response \<times> server" where
  "get_products s =
     (if useDb s then (\<lparr>status = 200, body = ProductsBody (db_products (db s))\<rparr>, s)
      else (\<lparr>status = 200, body = ProductsBody (mem_products (mem s))\<rparr>, s))"

text \<open>
  \<^verbatim>\<open>POST /api/cart\<close>. The guard
  \<^verbatim>\<open>!productId || typeof qty !== 'number' || qty <= 0\<close> rejects an absent or empty
  \<^verbatim>\<open>productId\<close>, every \<^verbatim>\<open>qty\<close> that is not a number, and every number that is not
  above zero.
\<close>

definition mem_upsert :: "cart_line list \<Rightarrow> string \<Rightarrow> rat \<Rightarrow> cart_line list" where
  "mem_upsert cart pid q =
     (let idx = findIndex (\<lambda>c. userId c = DEMO_USER \<and> productId c = pid) cart
      in if idx \<ge> 0 then cart[nat idx := (cart ! nat idx)\<lparr>qty := q\<rparr>]
         else cart @ [\<lparr>userId = DEMO_USER, productId = pid, qty = q\<rparr>])"

definition post_cart :: "server \<Rightarrow> request_body \<Rightarrow> response \<times> server" where
  "post_cart s b =
     (case (b_productId b, b_qty b) of
        (Some pid, JNumber q) \<Rightarrow>
          if pid = [] \<or> q \<le> 0 then (error_response 400 ''productId and qty>0 required'', s)
          else if useDb s then
            (case select_product (db s) pid of
               None \<Rightarrow> (error_response 404 ''Product not found'', s)
             | Some p \<Rightarrow>
                 (case select_cart_line (db s) DEMO_USER pid of
                    Some existing \<Rightarrow> getCart (s\<lparr>db := update_qty (db s) q (c_id existing)\<rparr>)
                  | None \<Rightarrow>
                      (case insert_cart (db s) DEMO_USER pid q of
                         Inl e \<Rightarrow> (error_response 500 ''Failed to update cart'', s)
                       | Inr d' \<Rightarrow> getCart (s\<lparr>db := d'\<rparr>))))
          else getCart (s\<lparr>mem := (mem s)\<lparr>mem_cart := mem_upsert (mem_cart (mem s)) pid q\<rparr>\<rparr>)
      | _ \<Rightarrow> (error_response 400 ''productId and qty>0 required'', s))"

text \<open>\<^verbatim>\<open>DELETE /api/cart/:id\<close>; the path parameter is the product id.\<close>

definition delete_cart :: "server \<Rightarrow> string \<Rightarrow> response \<times> server" where
  "delete_cart s pid =
     (if useDb s then getCart (s\<lparr>db := delete_cart_line (db s) DEMO_USER pid\<rparr>)
      else getCart (s\<lparr>mem := (mem s)\<lparr>mem_cart :=
             filter (\<lambda>c. \<not> (userId c = DEMO_USER \<and> productId c = pid)) (mem_cart (mem s))\<rparr>\<rparr>))"

text \<open>
  \<^verbatim>\<open>POST /api/checkout\<close>. The route repeats the body of \<^verbatim>\<open>getCart\<close> inline instead of
  calling it, and so does this definition. \<open>rnd\<close> is \<^verbatim>\<open>Math.random().toString(36)\<close> and
  \<open>now\<close> is \<^verbatim>\<open>new Date().toISOString()\<close>, the two readings of the environment.
\<close>

definition checkout :: "server \<Rightarrow> string \<Rightarrow> string \<Rightarrow> response \<times> server" where
  "checkout s rnd now =
     (let its =
            (if useDb s then select_cart_join (db s) DEMO_USER
             else map (\<lambda>c. spread_item (product_map (mem_products (mem s)) (productId c)) (qty c))
                    (filter (\<lambda>c. userId c = DEMO_USER) (mem_cart (mem s))));
          tot = foldl (\<lambda>sum it. js_add sum (js_mul (to_number (it_price it)) (Fin (it_qty it))))
                  (Fin 0) its;
          cart = \<lparr>items = its, total = tot\<rparr>;
          rcpt = \<lparr>r_id = ''rcpt_'' @ slice rnd 2 8, r_total = total cart, r_items = items cart,
                  r_timestamp = now\<rparr>;
          s' = (if useDb s then s\<lparr>db := delete_cart_user (db s) DEMO_USER\<rparr>
                else s\<lparr>mem := (mem s)\<lparr>mem_cart :=
                       filter (\<lambda>c. userId c \<noteq> DEMO_USER) (mem_cart (mem s))\<rparr>\<rparr>)
      in (\<lparr>status = 200, body = ReceiptBody rcpt\<rparr>, s'))"

definition health :: "server \<Rightarrow> response \<times> server" where
  "health s = (\<lparr>status = 200, body = HealthBody True\<rparr>, s)"

datatype request =
    GetProducts
  | PostCart request_body
  | DeleteCart string
  | GetCart
  | PostCheckout string string
  | GetHealth

fun handle :: "server \<Rightarrow> request \<Rightarrow> response \<times> server" where
  "handle s GetProducts = get_products s"
| "handle s (PostCart b) = post_cart s b"
| "handle s (DeleteCart pid) = delete_cart s pid"
| "handle s GetCart = getCart s"
| "handle s (PostCheckout rnd now) = checkout s rnd now"
| "handle s GetHealth = health s"

section \<open>Notions the properties are stated with\<close>

text \<open>The lines of the active store, and \<open>get(userId)\<close>: the lines of one user.\<close>

definition cart_lines :: "server \<Rightarrow> cart_line list" where
  "cart_lines s = (if useDb s then map line (db_cart (db s)) else mem_cart (mem s))"

definition get_lines :: "server \<Rightarrow> string \<Rightarrow> cart_line list" where
  "get_lines s uid = filter (\<lambda>c. userId c = uid) (cart_lines s)"

text \<open>At most one line for each pair of user and product.\<close>

definition cart_unique :: "server \<Rightarrow> bool" where
  "cart_unique s = distinct (map (\<lambda>c. (userId c, productId c)) (cart_lines s))"

text \<open>\<^verbatim>\<open>id INTEGER PRIMARY KEY\<close>: no two rows of the table \<^verbatim>\<open>cart\<close> share an id.\<close>

definition primary_key :: "server \<Rightarrow> bool" where
  "primary_key s = distinct (map c_id (db_cart (db s)))"

text \<open>The catalog of the active backend.\<close>

definition catalog :: "server \<Rightarrow> product list" where
  "catalog s = (if useDb s then db_products (db s) else mem_products (mem s))"

definition known_product :: "server \<Rightarrow> string \<Rightarrow> bool" where
  "known_product s pid = (find (\<lambda>p. p_id p = pid) (catalog s) \<noteq> None)"

text \<open>The lines that belong to other users than the demo user, in either store.\<close>

definition others_db :: "server \<Rightarrow> cart_row list" where
  "others_db s = filter (\<lambda>r. userId (line r) \<noteq> DEMO_USER) (db_cart (db s))"

definition others_mem :: "server \<Rightarrow> cart_line list" where
  "others_mem s = filter (\<lambda>c. userId c \<noteq> DEMO_USER) (mem_cart (mem s))"

text \<open>A \<^verbatim>\<open>qty\<close> that is a number above zero, and one that is moreover an integer.\<close>

fun positive_number :: "jsval \<Rightarrow> bool" where
  "positive_number (JNumber q) = (0 < q)"
| "positive_number _ = False"

fun positive_integer :: "jsval \<Rightarrow> bool" where
  "positive_integer (JNumber q) = (0 < q \<and> q = of_int \<lfloor>q\<rfloor>)"
| "positive_integer _ = False"

text \<open>
  Two servers, one on each backend, hold the same state: the same catalog and the same
  cart lines in the same order.
\<close>

definition same_state :: "server \<Rightarrow> server \<Rightarrow> bool" where
  "same_state sd sm =
     (useDb sd \<and> \<not> useDb sm \<and> db_products (db sd) = mem_products (mem sm) \<and>
      map line (db_cart (db sd)) = mem_cart (mem sm))"

text \<open>
  The two servers correspond: they hold the same state, and the database is as its
  schema keeps it (distinct row ids, distinct product ids, every line of the demo user
  on a product of the catalog).
\<close>

definition corresponds :: "server \<Rightarrow> server \<Rightarrow> bool" where
  "corresponds sd sm =
     (same_state sd sm \<and> primary_key sd \<and> distinct (map p_id (db_products (db sd))) \<and>
      list_all (\<lambda>c. known_product sd (productId c)) (get_lines sd DEMO_USER))"

text \<open>A \<^verbatim>\<open>POST /api/cart\<close> that passes the guard and names a product the catalog does
  not have.\<close>

definition asks_unknown_product :: "server \<Rightarrow> request \<Rightarrow> bool" where
  "asks_unknown_product s r =
     (case r of
        PostCart b \<Rightarrow>
          (case (b_productId b, b_qty b) of
             (Some pid, JNumber q) \<Rightarrow> pid \<noteq> [] \<and> 0 < q \<and> \<not> known_product s pid
           | _ \<Rightarrow> False)
      | _ \<Rightarrow> False)"

text \<open>
  Two answers are alike when they are equal but for the order of the items of a cart or
  a receipt, which each store gives in its own order, and but for the total, which is
  summed in that order.
\<close>

fun alike :: "body \<Rightarrow> body \<Rightarrow> bool" where
  "alike (CartBody v) (CartBody w) = (mset (items v) = mset (items w))"
| "alike (ReceiptBody a) (ReceiptBody b) =
     (r_id a = r_id b \<and> r_timestamp a = r_timestamp b \<and> mset (r_items a) = mset (r_items b))"
| "alike x y = (x = y)"

text \<open>\<open>view(userId)\<close>: the body \<^verbatim>\<open>GET /api/cart\<close> answers with.\<close>

definition view :: "server \<Rightarrow> cart_view" where
  "view s = (case body (fst (getCart s)) of CartBody v \<Rightarrow> v | _ \<Rightarrow> \<lparr>items = [], total = NaN\<rparr>)"

text \<open>
  Two stores that hold a line of another user beside one of the demo user. No route
  writes such a line; it can only come from outside the process.
\<close>

definition two_users_db :: server where
  "two_users_db =
     \<lparr>useDb = True,
      db = \<lparr>db_products = seed,
            db_cart = [\<lparr>c_id = 1, line = \<lparr>userId = ''alice'', productId = ''p1'', qty = 3\<rparr>\<rparr>,
                       \<lparr>c_id = 2, line = \<lparr>userId = ''demo'', productId = ''p1'', qty = 1\<rparr>\<rparr>],
            db_seq = 2\<rparr>,
      mem = mem_initial\<rparr>"

definition two_users_mem :: server where
  "two_users_mem =
     \<lparr>useDb = False, db = empty_db,
      mem = \<lparr>mem_products = seed,
             mem_cart = [\<lparr>userId = ''alice'', productId = ''p1'', qty = 3\<rparr>,
                         \<lparr>userId = ''demo'', productId = ''p1'', qty = 1\<rparr>]\<rparr>\<rparr>"

text \<open>The server after the demo user has put one \<^verbatim>\<open>p1\<close> (price 1999) and two \<^verbatim>\<open>p2\<close>
  (price 699) into the cart.\<close>

definition example_cart :: "server \<Rightarrow> server" where
  "example_cart s0 =
     snd (handle (snd (handle s0 (PostCart \<lparr>b_productId = Some ''p1'', b_qty = JNumber 1\<rparr>)))
            (PostCart \<lparr>b_productId = Some ''p2'', b_qty = JNumber 2\<rparr>))"

text \<open>The in-memory server after the demo user has posted one \<^verbatim>\<open>p1\<close> and then one of
  \<^verbatim>\<open>zzz\<close>, a product the catalog does not have.\<close>

definition mixed_cart :: server where
  "mixed_cart =
     snd (handle (snd (handle (initDb None) (PostCart \<lparr>b_productId = Some ''p1'', b_qty = JNumber 1\<rparr>)))
            (PostCart \<lparr>b_productId = Some ''zzz'', b_qty = JNumber 1\<rparr>))"

text \<open>A database whose cart has a row for a product the catalog does not have (as
  after a deletion made while foreign keys were not enforced).\<close>

definition orphan_db :: server where
  "orphan_db =
     \<lparr>useDb = True,
      db = \<lparr>db_products = seed,
            db_cart = [\<lparr>c_id = 1, line = \<lparr>userId = ''demo'', productId = ''p9'', qty = 2\<rparr>\<rparr>,
                       \<lparr>c_id = 2, line = \<lparr>userId = ''demo'', productId = ''p1'', qty = 1\<rparr>\<rparr>],
            db_seq = 2\<rparr>,
      mem = mem_initial\<rparr>"

section \<open>The in-memory upsert\<close>

text \<open>\<^verbatim>\<open>findIndex\<close> followed by an assignment or a \<^verbatim>\<open>push\<close> replaces the quantity of
  the first matching line, or appends a line when none matches.\<close>

lemma findIndex_neg: "(findIndex P xs < 0) = (\<forall>x\<in>set xs. \<not> P x)"
  by (induction xs) (auto simp: Let_def)

lemma findIndex_range: "findIndex P xs = - 1 \<or> 0 \<le> findIndex P xs"
  by (induction xs) (auto simp: Let_def)

lemma mem_upsert_Nil: "mem_upsert [] pid q = [\<lparr>userId = DEMO_USER, productId = pid, qty = q\<rparr>]"
  by (simp add: mem_upsert_def)

lemma mem_upsert_Cons:
  "mem_upsert (c # cs) pid q =
     (if userId c = DEMO_USER \<and> productId c = pid then c\<lparr>qty := q\<rparr> # cs
      else c # mem_upsert cs pid q)"
proof -
  let ?P = "\<lambda>c. userId c = DEMO_USER \<and> productId c = pid"
  consider "?P c" | "\<not> ?P c" "findIndex ?P cs < 0" | "\<not> ?P c" "0 \<le> findIndex ?P cs"
    by linarith
  then show ?thesis
  proof cases
    case 1
    then show ?thesis by (simp add: mem_upsert_def)
  next
    case 2
    then show ?thesis by (simp add: mem_upsert_def Let_def)
  next
    case 3
    then have "nat (findIndex ?P cs + 1) = Suc (nat (findIndex ?P cs))" by simp
    with 3 show ?thesis by (auto simp add: mem_upsert_def Let_def)
  qed
qed

lemma mem_upsert_others:
  "filter (\<lambda>c. \<not> (userId c = DEMO_USER \<and> productId c = pid)) (mem_upsert cs pid q)
     = filter (\<lambda>c. \<not> (userId c = DEMO_USER \<and> productId c = pid)) cs"
  by (induction cs) (simp_all add: mem_upsert_Nil mem_upsert_Cons)

lemma mem_upsert_keys:
  "set (map (\<lambda>c. (userId c, productId c)) (mem_upsert cs pid q))
     = insert (DEMO_USER, pid) (set (map (\<lambda>c. (userId c, productId c)) cs))"
  by (induction cs) (auto simp add: mem_upsert_Nil mem_upsert_Cons)

lemma mem_upsert_distinct:
  "distinct (map (\<lambda>c. (userId c, productId c)) cs) \<Longrightarrow>
   distinct (map (\<lambda>c. (userId c, productId c)) (mem_upsert cs pid q))"
proof (induction cs)
  case Nil
  then show ?case by (simp add: mem_upsert_Nil)
next
  case (Cons c cs)
  show ?case
  proof (cases "userId c = DEMO_USER \<and> productId c = pid")
    case True
    with Cons.prems show ?thesis by (simp add: mem_upsert_Cons)
  next
    case False
    have "(userId c, productId c) \<notin> set (map (\<lambda>c. (userId c, productId c)) (mem_upsert cs pid q))"
      using False Cons.prems unfolding mem_upsert_keys by auto
    with False Cons show ?thesis by (auto simp add: mem_upsert_Cons)
  qed
qed

lemma mem_upsert_one:
  "distinct (map (\<lambda>c. (userId c, productId c)) cs) \<Longrightarrow>
   filter (\<lambda>c. userId c = DEMO_USER \<and> productId c = pid) (mem_upsert cs pid q)
     = [\<lparr>userId = DEMO_USER, productId = pid, qty = q\<rparr>]"
proof (induction cs)
  case Nil
  then show ?case by (simp add: mem_upsert_Nil)
next
  case (Cons c cs)
  show ?case
  proof (cases "userId c = DEMO_USER \<and> productId c = pid")
    case True
    then have "\<forall>x\<in>set cs. \<not> (userId x = DEMO_USER \<and> productId x = pid)"
      using Cons.prems by (auto simp: image_iff)
    then have "filter (\<lambda>c. userId c = DEMO_USER \<and> productId c = pid) cs = []"
      by (simp add: filter_empty_conv)
    with True show ?thesis by (simp add: mem_upsert_Cons)
  next
    case False
    with Cons show ?thesis by (auto simp add: mem_upsert_Cons)
  qed
qed

lemma mem_upsert_idem: "mem_upsert (mem_upsert cs pid q) pid q = mem_upsert cs pid q"
  by (induction cs) (simp_all add: mem_upsert_Nil mem_upsert_Cons)

lemma mem_upsert_member:
  "\<lparr>userId = DEMO_USER, productId = pid, qty = q\<rparr> \<in> set (mem_upsert cs pid q)"
  by (induction cs) (auto simp add: mem_upsert_Nil mem_upsert_Cons)

section \<open>The SQL upsert\<close>

text \<open>With distinct row ids, \<^verbatim>\<open>UPDATE ... WHERE id = existing.id\<close> changes the row the
  \<^verbatim>\<open>SELECT\<close> found and no other, so on the lines it acts as the in-memory upsert.\<close>

lemma find_line_None:
  "find (\<lambda>r. P (line r)) rows = None \<Longrightarrow> \<forall>c\<in>set (map line rows). \<not> P c"
  by (auto simp: find_None_iff)

lemma mem_upsert_absent:
  "\<forall>c\<in>set cs. \<not> (userId c = DEMO_USER \<and> productId c = pid) \<Longrightarrow>
   mem_upsert cs pid q = cs @ [\<lparr>userId = DEMO_USER, productId = pid, qty = q\<rparr>]"
  by (induction cs) (auto simp add: mem_upsert_Nil mem_upsert_Cons)

lemma update_unmatched:
  "\<forall>r\<in>set rows. c_id r \<noteq> rid \<Longrightarrow>
   map (\<lambda>r. if c_id r = rid then r\<lparr>line := (line r)\<lparr>qty := q\<rparr>\<rparr> else r) rows = rows"
  by (induction rows) auto

lemma update_lines:
  "distinct (map c_id rows) \<Longrightarrow>
   find (\<lambda>r. userId (line r) = DEMO_USER \<and> productId (line r) = pid) rows = Some e \<Longrightarrow>
   map line (map (\<lambda>r. if c_id r = c_id e then r\<lparr>line := (line r)\<lparr>qty := q\<rparr>\<rparr> else r) rows)
     = mem_upsert (map line rows) pid q"
proof (induction rows)
  case Nil
  then show ?case by simp
next
  case (Cons r rows)
  show ?case
  proof (cases "userId (line r) = DEMO_USER \<and> productId (line r) = pid")
    case True
    with Cons.prems have e: "e = r" by simp
    have "\<forall>x\<in>set rows. c_id x \<noteq> c_id r" using Cons.prems(1) by (auto simp: image_iff)
    then have "map (\<lambda>x. if c_id x = c_id r then x\<lparr>line := (line x)\<lparr>qty := q\<rparr>\<rparr> else x) rows = rows"
      by (rule update_unmatched)
    with True e show ?thesis by (simp add: mem_upsert_Cons)
  next
    case False
    with Cons.prems have f: "find (\<lambda>r. userId (line r) = DEMO_USER \<and> productId (line r) = pid) rows = Some e"
      by auto
    then have "e \<in> set rows" by (auto simp: find_Some_iff)
    with Cons.prems(1) have ne: "c_id r \<noteq> c_id e" by auto
    from Cons.prems(1) have d: "distinct (map c_id rows)" by simp
    from Cons.IH[OF d f] False ne show ?thesis by (auto simp add: mem_upsert_Cons)
  qed
qed

lemma update_others:
  "distinct (map c_id rows) \<Longrightarrow>
   find (\<lambda>r. userId (line r) = DEMO_USER \<and> productId (line r) = pid) rows = Some e \<Longrightarrow>
   filter (\<lambda>r. userId (line r) \<noteq> DEMO_USER)
      (map (\<lambda>r. if c_id r = c_id e then r\<lparr>line := (line r)\<lparr>qty := q\<rparr>\<rparr> else r) rows)
     = filter (\<lambda>r. userId (line r) \<noteq> DEMO_USER) rows"
proof (induction rows)
  case Nil
  then show ?case by simp
next
  case (Cons r rows)
  show ?case
  proof (cases "userId (line r) = DEMO_USER \<and> productId (line r) = pid")
    case True
    with Cons.prems have e: "e = r" by simp
    have "\<forall>x\<in>set rows. c_id x \<noteq> c_id r" using Cons.prems(1) by (auto simp: image_iff)
    then have "map (\<lambda>x. if c_id x = c_id r then x\<lparr>line := (line x)\<lparr>qty := q\<rparr>\<rparr> else x) rows = rows"
      by (rule update_unmatched)
    with True e show ?thesis by simp
  next
    case False
    with Cons.prems have f: "find (\<lambda>r. userId (line r) = DEMO_USER \<and> productId (line r) = pid) rows = Some e"
      by auto
    then have "e \<in> set rows" by (auto simp: find_Some_iff)
    with Cons.prems(1) have ne: "c_id r \<noteq> c_id e" by auto
    from Cons.prems(1) have d: "distinct (map c_id rows)" by simp
    from Cons.IH[OF d f] False ne show ?thesis by auto
  qed
qed

lemma update_ids:
  "map c_id (map (\<lambda>r. if c_id r = rid then r\<lparr>line := (line r)\<lparr>qty := q\<rparr>\<rparr> else r) rows) = map c_id rows"
  by (induction rows) auto

lemma fold_max_ge: "(m::nat) \<le> fold max xs m"
  by (induction xs arbitrary: m) (auto intro: order_trans[OF max.cobounded2])

lemma fold_max_upper: "x \<in> set xs \<Longrightarrow> (x::nat) \<le> fold max xs m"
proof (induction xs arbitrary: m)
  case Nil
  then show ?case by simp
next
  case (Cons y ys)
  show ?case
  proof (cases "x = y")
    case True
    have "max y m \<le> fold max ys (max y m)" by (rule fold_max_ge)
    with True show ?thesis by simp
  next
    case False
    with Cons show ?thesis by simp
  qed
qed

lemma next_id_fresh: "next_id d \<notin> set (map c_id (db_cart d))"
proof
  assume "next_id d \<in> set (map c_id (db_cart d))"
  then have "next_id d \<le> fold max (map c_id (db_cart d)) (db_seq d)" by (rule fold_max_upper)
  then show False by (simp add: next_id_def)
qed

section \<open>The routes, branch by branch\<close>

lemma getCart_state [simp]: "snd (getCart s) = s"
  by (simp add: getCart_def Let_def)

lemma getCart_response:
  "fst (getCart s) = \<lparr>status = 200, body = CartBody \<lparr>items = cart_items s, total = cart_total (cart_items s)\<rparr>\<rparr>"
  by (simp add: getCart_def Let_def)

lemma getCart_status [simp]: "status (fst (getCart s)) = 200"
  by (simp add: getCart_response)

lemma post_cart_invalid:
  "\<not> (\<exists>pid q. b_productId b = Some pid \<and> b_qty b = JNumber q \<and> pid \<noteq> [] \<and> 0 < q) \<Longrightarrow>
   post_cart s b = (error_response 400 ''productId and qty>0 required'', s)"
  by (auto simp add: post_cart_def split: option.splits jsval.splits)

lemma post_cart_mem:
  "\<not> useDb s \<Longrightarrow> b_productId b = Some pid \<Longrightarrow> b_qty b = JNumber q \<Longrightarrow> pid \<noteq> [] \<Longrightarrow> 0 < q \<Longrightarrow>
   post_cart s b = getCart (s\<lparr>mem := (mem s)\<lparr>mem_cart := mem_upsert (mem_cart (mem s)) pid q\<rparr>\<rparr>)"
  by (simp add: post_cart_def)

lemma post_cart_db_unknown:
  "useDb s \<Longrightarrow> b_productId b = Some pid \<Longrightarrow> b_qty b = JNumber q \<Longrightarrow> pid \<noteq> [] \<Longrightarrow> 0 < q \<Longrightarrow>
   select_product (db s) pid = None \<Longrightarrow>
   post_cart s b = (error_response 404 ''Product not found'', s)"
  by (simp add: post_cart_def)

lemma post_cart_db_update:
  "useDb s \<Longrightarrow> b_productId b = Some pid \<Longrightarrow> b_qty b = JNumber q \<Longrightarrow> pid \<noteq> [] \<Longrightarrow> 0 < q \<Longrightarrow>
   select_product (db s) pid = Some p \<Longrightarrow> select_cart_line (db s) DEMO_USER pid = Some e \<Longrightarrow>
   post_cart s b = getCart (s\<lparr>db := update_qty (db s) q (c_id e)\<rparr>)"
  by (simp add: post_cart_def)

lemma post_cart_db_insert:
  "useDb s \<Longrightarrow> b_productId b = Some pid \<Longrightarrow> b_qty b = JNumber q \<Longrightarrow> pid \<noteq> [] \<Longrightarrow> 0 < q \<Longrightarrow>
   select_product (db s) pid = Some p \<Longrightarrow> select_cart_line (db s) DEMO_USER pid = None \<Longrightarrow>
   post_cart s b = getCart (s\<lparr>db := (db s)\<lparr>db_cart := db_cart (db s) @
       [\<lparr>c_id = next_id (db s), line = \<lparr>userId = DEMO_USER, productId = pid, qty = q\<rparr>\<rparr>],
       db_seq := next_id (db s)\<rparr>\<rparr>)"
  by (simp add: post_cart_def insert_cart_def)

text \<open>The guarded \<^verbatim>\<open>INSERT\<close> of the route never violates a constraint: the two
  \<^verbatim>\<open>SELECT\<close>s before it have checked both.\<close>

lemma post_cart_never_500: "status (fst (post_cart s b)) \<noteq> 500"
  by (auto simp add: post_cart_def insert_cart_def error_response_def
      split: option.splits jsval.splits sum.splits)

text \<open>On the lines of the active store, a valid request for a known product is the
  in-memory upsert, whichever backend runs.\<close>

lemma post_cart_lines:
  assumes pk: "primary_key s"
    and b: "b_productId b = Some pid" "b_qty b = JNumber q" "pid \<noteq> []" "0 < q"
    and known: "known_product s pid"
  shows "fst (post_cart s b) = fst (getCart (snd (post_cart s b)))"
    and "cart_lines (snd (post_cart s b)) = mem_upsert (cart_lines s) pid q"
    and "useDb (snd (post_cart s b)) = useDb s"
proof -
  have "fst (post_cart s b) = fst (getCart (snd (post_cart s b))) \<and>
        cart_lines (snd (post_cart s b)) = mem_upsert (cart_lines s) pid q \<and>
        useDb (snd (post_cart s b)) = useDb s"
  proof (cases "useDb s")
    case False
    then show ?thesis using b by (simp add: post_cart_mem cart_lines_def)
  next
    case True
    with known obtain p where p: "select_product (db s) pid = Some p"
      by (auto simp add: known_product_def catalog_def select_product_def)
    show ?thesis
    proof (cases "select_cart_line (db s) DEMO_USER pid")
      case None
      then have "\<forall>c\<in>set (map line (db_cart (db s))). \<not> (userId c = DEMO_USER \<and> productId c = pid)"
        unfolding select_cart_line_def by (rule find_line_None)
      then have "mem_upsert (map line (db_cart (db s))) pid q
                  = map line (db_cart (db s)) @ [\<lparr>userId = DEMO_USER, productId = pid, qty = q\<rparr>]"
        by (rule mem_upsert_absent)
      then show ?thesis
        using True b p None by (simp add: post_cart_db_insert cart_lines_def)
    next
      case (Some e)
      from pk Some have
        "map line (map (\<lambda>r. if c_id r = c_id e then r\<lparr>line := (line r)\<lparr>qty := q\<rparr>\<rparr> else r) (db_cart (db s)))
          = mem_upsert (map line (db_cart (db s))) pid q"
        unfolding primary_key_def select_cart_line_def by (rule update_lines)
      then show ?thesis
        using True b p Some by (simp add: post_cart_db_update cart_lines_def update_qty_def)
    qed
  qed
  then show "fst (post_cart s b) = fst (getCart (snd (post_cart s b)))"
    and "cart_lines (snd (post_cart s b)) = mem_upsert (cart_lines s) pid q"
    and "useDb (snd (post_cart s b)) = useDb s" by simp_all
qed

lemma delete_cart_lines:
  "cart_lines (snd (delete_cart s pid))
     = filter (\<lambda>c. \<not> (userId c = DEMO_USER \<and> productId c = pid)) (cart_lines s)"
  by (simp add: delete_cart_def cart_lines_def delete_cart_line_def filter_map comp_def)

lemma checkout_lines:
  "cart_lines (snd (checkout s rnd now)) = filter (\<lambda>c. userId c \<noteq> DEMO_USER) (cart_lines s)"
  by (simp add: checkout_def cart_lines_def delete_cart_user_def filter_map comp_def Let_def)

lemma checkout_response:
  "fst (checkout s rnd now) =
     \<lparr>status = 200, body = ReceiptBody \<lparr>r_id = ''rcpt_'' @ slice rnd 2 8,
        r_total = cart_total (cart_items s), r_items = cart_items s, r_timestamp = now\<rparr>\<rparr>"
  by (simp add: checkout_def cart_items_def cart_total_def Let_def)

lemma view_eq: "view s = \<lparr>items = cart_items s, total = cart_total (cart_items s)\<rparr>"
  by (simp add: view_def getCart_response)

lemma getCart_view: "getCart s = (\<lparr>status = 200, body = CartBody (view s)\<rparr>, s)"
  by (simp add: view_eq getCart_def Let_def)

lemma post_cart_success:
  "status (fst (post_cart s b)) = 200 \<Longrightarrow> \<exists>s'. post_cart s b = getCart s'"
  by (auto simp add: post_cart_def error_response_def split: option.splits jsval.splits sum.splits if_splits)

lemma delete_cart_getCart: "\<exists>s'. delete_cart s pid = getCart s'"
  by (auto simp add: delete_cart_def)

section \<open>Responses of the mutating routes\<close>

text \<open>
  Claim C10. A successful \<^verbatim>\<open>POST /api/cart\<close> and every \<^verbatim>\<open>DELETE /api/cart/:id\<close> answer
  with exactly what a \<^verbatim>\<open>GET /api/cart\<close> sent right after them answers: the view of the
  store as the mutation left it. Both routes end in \<^verbatim>\<open>return getCart(req, res)\<close>, and
  \<^verbatim>\<open>getCart\<close> leaves the state as it is.
\<close>

theorem mutation_answers_with_next_view:
  "(status (fst (handle s (PostCart b))) = 200 \<longrightarrow>
      fst (handle s (PostCart b)) = fst (handle (snd (handle s (PostCart b))) GetCart)) \<and>
   fst (handle s (DeleteCart pid)) = fst (handle (snd (handle s (DeleteCart pid))) GetCart) \<and>
   status (fst (handle s (DeleteCart pid))) = 200 \<and>
   handle s GetCart = (\<lparr>status = 200, body = CartBody (view s)\<rparr>, s)"
proof -
  have "fst (post_cart s b) = fst (getCart (snd (post_cart s b)))"
    if "status (fst (post_cart s b)) = 200"
  proof -
    from that obtain s' where "post_cart s b = getCart s'" using post_cart_success by blast
    then show ?thesis by simp
  qed
  moreover obtain s' where "delete_cart s pid = getCart s'" using delete_cart_getCart by blast
  ultimately show ?thesis by (simp add: getCart_view)
qed

theorem mutation_answers_with_next_view_witness:
  "status (fst (handle (initDb None) (PostCart \<lparr>b_productId = Some ''p1'', b_qty = JNumber 2\<rparr>))) = 200 \<and>
   fst (handle (initDb None) (PostCart \<lparr>b_productId = Some ''p1'', b_qty = JNumber 2\<rparr>))
     = fst (handle (snd (handle (initDb None) (PostCart \<lparr>b_productId = Some ''p1'', b_qty = JNumber 2\<rparr>))) GetCart) \<and>
   total (view (snd (handle (initDb None) (PostCart \<lparr>b_productId = Some ''p1'', b_qty = JNumber 2\<rparr>)))) = Fin 3998"
proof -
  have ok: "status (fst (handle (initDb None) (PostCart \<lparr>b_productId = Some ''p1'', b_qty = JNumber 2\<rparr>))) = 200"
    by code_simp
  have tot: "total (view (snd (handle (initDb None) (PostCart \<lparr>b_productId = Some ''p1'', b_qty = JNumber 2\<rparr>)))) = Fin 3998"
    by code_simp
  show ?thesis
    using ok tot
      mutation_answers_with_next_view [of "initDb None" "\<lparr>b_productId = Some ''p1'', b_qty = JNumber 2\<rparr>" "''p1''"]
    by simp
qed

section \<open>What each route does to the store\<close>

lemma known_product_db:
  "useDb s \<Longrightarrow> known_product s pid = (select_product (db s) pid \<noteq> None)"
  by (simp add: known_product_def catalog_def select_product_def)

text \<open>A request either is refused and leaves the state alone, or is stored as the
  in-memory upsert on the lines of the active store.\<close>

lemma post_cart_effect:
  assumes pk: "primary_key s"
  shows "(status (fst (post_cart s b)) \<noteq> 200 \<and> snd (post_cart s b) = s) \<or>
         (\<exists>pid q. b_productId b = Some pid \<and> b_qty b = JNumber q \<and> pid \<noteq> [] \<and> 0 < q \<and>
            (useDb s \<longrightarrow> known_product s pid) \<and>
            status (fst (post_cart s b)) = 200 \<and>
            cart_lines (snd (post_cart s b)) = mem_upsert (cart_lines s) pid q)"
proof (cases "\<exists>pid q. b_productId b = Some pid \<and> b_qty b = JNumber q \<and> pid \<noteq> [] \<and> 0 < q")
  case False
  then have "post_cart s b = (error_response 400 ''productId and qty>0 required'', s)"
    by (rule post_cart_invalid)
  then show ?thesis by (simp add: error_response_def)
next
  case True
  then obtain pid q where b: "b_productId b = Some pid" "b_qty b = JNumber q" "pid \<noteq> []" "0 < q"
    by blast
  show ?thesis
  proof (cases "useDb s")
    case False
    with b show ?thesis by (simp add: post_cart_mem cart_lines_def)
  next
    case db: True
    show ?thesis
    proof (cases "select_product (db s) pid")
      case None
      with db b have "post_cart s b = (error_response 404 ''Product not found'', s)"
        by (simp add: post_cart_db_unknown)
      then show ?thesis by (simp add: error_response_def)
    next
      case (Some p)
      with db have known: "known_product s pid" by (simp add: known_product_db)
      from post_cart_lines[OF pk b known] b known show ?thesis by simp
    qed
  qed
qed

lemma mem_upsert_other_users:
  "filter (\<lambda>c. userId c \<noteq> DEMO_USER) (mem_upsert cs pid q) = filter (\<lambda>c. userId c \<noteq> DEMO_USER) cs"
  by (induction cs) (simp_all add: mem_upsert_Nil mem_upsert_Cons)

lemma post_cart_mem_part:
  "useDb s \<Longrightarrow> mem (snd (post_cart s b)) = mem s"
  by (auto simp add: post_cart_def split: option.splits jsval.splits sum.splits)

lemma post_cart_db_part:
  "\<not> useDb s \<Longrightarrow> db (snd (post_cart s b)) = db s"
  by (auto simp add: post_cart_def split: option.splits jsval.splits sum.splits)

lemma post_cart_useDb: "useDb (snd (post_cart s b)) = useDb s"
  by (auto simp add: post_cart_def split: option.splits jsval.splits sum.splits)

lemma post_cart_catalog: "catalog (snd (post_cart s b)) = catalog s"
  by (auto simp add: post_cart_def catalog_def update_qty_def insert_cart_def
      split: option.splits jsval.splits sum.splits if_splits)

lemma post_cart_others_db:
  assumes pk: "primary_key s"
  shows "others_db (snd (post_cart s b)) = others_db s"
proof (cases "useDb s")
  case False
  then show ?thesis by (simp add: others_db_def post_cart_db_part)
next
  case db: True
  show ?thesis
  proof (cases "\<exists>pid q. b_productId b = Some pid \<and> b_qty b = JNumber q \<and> pid \<noteq> [] \<and> 0 < q")
    case False
    then have "post_cart s b = (error_response 400 ''productId and qty>0 required'', s)"
      by (rule post_cart_invalid)
    then show ?thesis by simp
  next
    case True
    then obtain pid q where b: "b_productId b = Some pid" "b_qty b = JNumber q" "pid \<noteq> []" "0 < q"
      by blast
    show ?thesis
    proof (cases "select_product (db s) pid")
      case None
      with db b show ?thesis by (simp add: post_cart_db_unknown)
    next
      case p: (Some p)
      show ?thesis
      proof (cases "select_cart_line (db s) DEMO_USER pid")
        case None
        with db b p show ?thesis by (simp add: post_cart_db_insert others_db_def)
      next
        case (Some e)
        from pk Some have
          "filter (\<lambda>r. userId (line r) \<noteq> DEMO_USER)
             (map (\<lambda>r. if c_id r = c_id e then r\<lparr>line := (line r)\<lparr>qty := q\<rparr>\<rparr> else r) (db_cart (db s)))
           = filter (\<lambda>r. userId (line r) \<noteq> DEMO_USER) (db_cart (db s))"
          unfolding primary_key_def select_cart_line_def by (rule update_others)
        with db b p Some show ?thesis
          by (simp add: post_cart_db_update others_db_def update_qty_def)
      qed
    qed
  qed
qed

lemma post_cart_others_mem: "others_mem (snd (post_cart s b)) = others_mem s"
proof (cases "useDb s")
  case True
  then show ?thesis by (simp add: others_mem_def post_cart_mem_part)
next
  case False
  then show ?thesis
    by (auto simp add: post_cart_def others_mem_def mem_upsert_other_users
        split: option.splits jsval.splits)
qed

lemma delete_cart_others:
  "others_db (snd (delete_cart s pid)) = others_db s \<and> others_mem (snd (delete_cart s pid)) = others_mem s"
  by (auto simp add: delete_cart_def others_db_def others_mem_def delete_cart_line_def
      intro: filter_cong)

lemma checkout_others:
  "others_db (snd (checkout s rnd now)) = others_db s \<and>
   others_mem (snd (checkout s rnd now)) = others_mem s"
  by (auto simp add: checkout_def others_db_def others_mem_def delete_cart_user_def Let_def
      intro: filter_cong)

section \<open>Other users' lines\<close>

text \<open>
  Claim C9. Every route reads and writes only lines whose \<^verbatim>\<open>userId\<close> is \<^verbatim>\<open>DEMO_USER\<close>:
  whatever the request, the lines of every other user are after it what they were before
  it, row for row in the table \<^verbatim>\<open>cart\<close> and element for element in \<^verbatim>\<open>mem.cart\<close>. The
  hypothesis is the table's \<^verbatim>\<open>PRIMARY KEY\<close>: \<^verbatim>\<open>UPDATE cart SET qty = ? WHERE id = ?\<close>
  names its row by id alone.
\<close>

theorem other_users_untouched:
  assumes "primary_key s"
  shows "others_db (snd (handle s r)) = others_db s \<and> others_mem (snd (handle s r)) = others_mem s"
proof (cases r)
  case GetProducts
  then show ?thesis by (simp add: get_products_def)
next
  case (PostCart b)
  with assms show ?thesis by (simp add: post_cart_others_db post_cart_others_mem)
next
  case (DeleteCart pid)
  then show ?thesis by (simp add: delete_cart_others)
next
  case GetCart
  then show ?thesis by simp
next
  case (PostCheckout rnd now)
  then show ?thesis by (simp add: checkout_others)
next
  case GetHealth
  then show ?thesis by (simp add: health_def)
qed

theorem other_users_untouched_witness:
  "primary_key two_users_db \<and>
   others_db (snd (handle two_users_db (PostCheckout ''0.4fzyo82mvyr'' ''2025-01-01T00:00:00.000Z'')))
     = [\<lparr>c_id = 1, line = \<lparr>userId = ''alice'', productId = ''p1'', qty = 3\<rparr>\<rparr>] \<and>
   others_mem (snd (handle two_users_db (PostCheckout ''0.4fzyo82mvyr'' ''2025-01-01T00:00:00.000Z'')))
     = [] \<and>
   db_cart (db (snd (handle two_users_db (PostCheckout ''0.4fzyo82mvyr'' ''2025-01-01T00:00:00.000Z''))))
     = [\<lparr>c_id = 1, line = \<lparr>userId = ''alice'', productId = ''p1'', qty = 3\<rparr>\<rparr>]"
proof -
  have pk: "primary_key two_users_db" by code_simp
  have before: "others_db two_users_db
      = [\<lparr>c_id = 1, line = \<lparr>userId = ''alice'', productId = ''p1'', qty = 3\<rparr>\<rparr>]"
    by code_simp
  have before_mem: "others_mem two_users_db = []" by code_simp
  have after: "db_cart (db (snd (handle two_users_db
        (PostCheckout ''0.4fzyo82mvyr'' ''2025-01-01T00:00:00.000Z''))))
      = [\<lparr>c_id = 1, line = \<lparr>userId = ''alice'', productId = ''p1'', qty = 3\<rparr>\<rparr>]"
    by code_simp
  show ?thesis
    using pk before before_mem after
      other_users_untouched [OF pk, of "PostCheckout ''0.4fzyo82mvyr'' ''2025-01-01T00:00:00.000Z''"]
    by simp
qed

section \<open>Removing a line that is not there\<close>

lemma delete_cart_absent:
  assumes "list_all (\<lambda>c. productId c \<noteq> pid) (get_lines s DEMO_USER)"
  shows "delete_cart s pid = getCart s"
proof -
  from assms have none: "\<forall>c\<in>set (cart_lines s). \<not> (userId c = DEMO_USER \<and> productId c = pid)"
    by (auto simp add: get_lines_def list_all_iff)
  show ?thesis
  proof (cases "useDb s")
    case True
    with none have "filter (\<lambda>r. \<not> (userId (line r) = DEMO_USER \<and> productId (line r) = pid)) (db_cart (db s))
        = db_cart (db s)"
      by (auto simp add: cart_lines_def filter_id_conv)
    with True show ?thesis by (simp add: delete_cart_def delete_cart_line_def)
  next
    case False
    with none have "filter (\<lambda>c. \<not> (userId c = DEMO_USER \<and> productId c = pid)) (mem_cart (mem s))
        = mem_cart (mem s)"
      by (auto simp add: cart_lines_def filter_id_conv)
    with False show ?thesis by (simp add: delete_cart_def)
  qed
qed

text \<open>
  Claim C6. When the demo user has no line for the product, \<^verbatim>\<open>DELETE /api/cart/:id\<close>
  leaves the whole state as it was (so the lines before and after are equal, not only
  equal as sets) and answers as \<^verbatim>\<open>GET /api/cart\<close> would: status 200 and the cart view.
  That is the shape of every answer of the route, also of a removal that finds its line.
\<close>

theorem remove_absent_is_noop:
  assumes "list_all (\<lambda>c. productId c \<noteq> pid) (get_lines s DEMO_USER)"
  shows "snd (handle s (DeleteCart pid)) = s \<and>
         fst (handle s (DeleteCart pid)) = \<lparr>status = 200, body = CartBody (view s)\<rparr> \<and>
         cart_lines (snd (handle s (DeleteCart pid))) = cart_lines s \<and>
         fst (handle s (DeleteCart pid')) =
           \<lparr>status = 200, body = CartBody (view (snd (handle s (DeleteCart pid'))))\<rparr>"
proof -
  from assms have "delete_cart s pid = getCart s" by (rule delete_cart_absent)
  moreover obtain s' where "delete_cart s pid' = getCart s'" using delete_cart_getCart by blast
  ultimately show ?thesis by (simp add: getCart_view)
qed

theorem remove_absent_is_noop_witness:
  "list_all (\<lambda>c. productId c \<noteq> ''p2'') (get_lines two_users_db DEMO_USER) \<and>
   snd (handle two_users_db (DeleteCart ''p2'')) = two_users_db \<and>
   status (fst (handle two_users_db (DeleteCart ''p2''))) = 200 \<and>
   status (fst (handle two_users_db (DeleteCart ''p1''))) = 200 \<and>
   list_all (\<lambda>c. productId c \<noteq> ''p2'') (get_lines two_users_mem DEMO_USER) \<and>
   snd (handle two_users_mem (DeleteCart ''p2'')) = two_users_mem"
proof -
  have d: "list_all (\<lambda>c. productId c \<noteq> ''p2'') (get_lines two_users_db DEMO_USER)"
    by code_simp
  have m: "list_all (\<lambda>c. productId c \<noteq> ''p2'') (get_lines two_users_mem DEMO_USER)"
    by code_simp
  show ?thesis
    using d m remove_absent_is_noop [OF d, of "''p1''"] remove_absent_is_noop [OF m, of "''p1''"]
    by simp
qed

section \<open>The view and its total\<close>

lemma reduce_NaN:
  "foldl (\<lambda>sum it. js_add sum (js_mul (to_number (it_price it)) (Fin (it_qty it)))) NaN its = NaN"
  by (induction its) simp_all

text \<open>One item without a price makes the total \<^verbatim>\<open>NaN\<close>, wherever it stands in the
  list: \<^verbatim>\<open>undefined * qty\<close> is \<^verbatim>\<open>NaN\<close>, and a sum with \<^verbatim>\<open>NaN\<close> is \<^verbatim>\<open>NaN\<close>.\<close>

lemma reduce_unpriced:
  assumes "\<exists>it\<in>set its. it_price it = None"
  shows "foldl (\<lambda>sum it. js_add sum (js_mul (to_number (it_price it)) (Fin (it_qty it)))) acc its = NaN"
  using assms
proof (induction its arbitrary: acc)
  case Nil
  then show ?case by simp
next
  case (Cons it its)
  show ?case
  proof (cases "it_price it")
    case None
    then show ?thesis by (simp add: reduce_NaN)
  next
    case (Some p)
    with Cons.prems have "\<exists>x\<in>set its. it_price x = None" by auto
    then show ?thesis by (simp add: Cons.IH)
  qed
qed

lemma cart_total_unpriced: "\<exists>it\<in>set its. it_price it = None \<Longrightarrow> cart_total its = NaN"
  by (simp add: cart_total_def reduce_unpriced)

lemma product_map_Some: "product_map ps k = Some p \<Longrightarrow> p_id p = k \<and> p \<in> set ps"
  by (auto simp add: product_map_def dest!: map_of_SomeD)

lemma product_map_None: "(product_map ps k = None) = (find (\<lambda>p. p_id p = k) ps = None)"
  by (auto simp add: product_map_def map_of_eq_None_iff find_None_iff image_iff)

lemma join_member:
  "(it \<in> set (select_cart_join d uid)) =
     (\<exists>c\<in>set (db_cart d). \<exists>p\<in>set (db_products d). userId (line c) = uid \<and> p_id p = productId (line c) \<and>
        it = \<lparr>it_id = Some (productId (line c)), it_name = Some (p_name p),
               it_price = Some (p_price p), it_image = Some (p_image p), it_qty = qty (line c)\<rparr>)"
  by (auto simp add: select_cart_join_def)

lemma mem_items_member:
  "\<not> useDb s \<Longrightarrow> (it \<in> set (cart_items s)) =
     (\<exists>c\<in>set (mem_cart (mem s)). userId c = DEMO_USER \<and>
        it = spread_item (product_map (mem_products (mem s)) (productId c)) (qty c))"
  by (auto simp add: cart_items_def)

lemma spread_item_id: "it_id (spread_item po q) = map_option p_id po"
  by (simp add: spread_item_def split: option.splits)

lemma spread_item_qty [simp]: "it_qty (spread_item po q) = q"
  by (simp add: spread_item_def split: option.splits)

text \<open>Every item of the view comes from a line of the demo user, and carries that
  line's product id when it carries one.\<close>

lemma item_has_line:
  assumes "it \<in> set (cart_items s)"
  shows "\<exists>c\<in>set (get_lines s DEMO_USER). it_qty it = qty c \<and> (it_id it = Some (productId c) \<or> it_id it = None)"
proof (cases "useDb s")
  case True
  with assms show ?thesis
    by (auto simp add: cart_items_def join_member get_lines_def cart_lines_def)
next
  case False
  with assms obtain c where c: "c \<in> set (mem_cart (mem s))" "userId c = DEMO_USER"
    "it = spread_item (product_map (mem_products (mem s)) (productId c)) (qty c)"
    by (auto simp add: mem_items_member)
  have "it_id it = Some (productId c) \<or> it_id it = None"
    using c(3) by (cases "product_map (mem_products (mem s)) (productId c)")
      (auto simp add: spread_item_id dest: product_map_Some)
  with c False show ?thesis by (auto simp add: get_lines_def cart_lines_def)
qed

text \<open>A line of the demo user for a product of the catalog shows in the view.\<close>

lemma line_has_item:
  assumes "c \<in> set (get_lines s DEMO_USER)" and "known_product s (productId c)"
  shows "\<exists>it\<in>set (cart_items s). it_qty it = qty c \<and> it_id it = Some (productId c)"
proof (cases "useDb s")
  case True
  from assms(2) True obtain p where p: "p \<in> set (db_products (db s))" "p_id p = productId c"
    by (auto simp add: known_product_def catalog_def find_None_iff)
  from assms(1) True obtain r where r: "r \<in> set (db_cart (db s))" "line r = c" "userId c = DEMO_USER"
    by (auto simp add: get_lines_def cart_lines_def)
  let ?it = "\<lparr>it_id = Some (productId (line r)), it_name = Some (p_name p),
              it_price = Some (p_price p), it_image = Some (p_image p), it_qty = qty (line r)\<rparr>"
  from p r have "?it \<in> set (select_cart_join (db s) DEMO_USER)"
    unfolding join_member by blast
  with True r show ?thesis by (auto simp add: cart_items_def intro!: bexI[where x="?it"])
next
  case False
  from assms(2) False obtain p where p: "product_map (mem_products (mem s)) (productId c) = Some p"
    by (auto simp add: known_product_def catalog_def product_map_None[symmetric])
  then have pid: "p_id p = productId c" by (auto dest: product_map_Some)
  let ?it = "spread_item (product_map (mem_products (mem s)) (productId c)) (qty c)"
  from assms(1) False have "?it \<in> set (cart_items s)"
    unfolding mem_items_member[OF False] by (auto simp add: get_lines_def cart_lines_def)
  moreover from p pid have "it_id ?it = Some (productId c)" by (simp add: spread_item_id)
  ultimately show ?thesis by (auto intro!: bexI[where x="?it"])
qed

text \<open>In the in-memory store a line shows in the view whether the catalog has its
  product or not.\<close>

lemma mem_line_has_item:
  assumes "\<not> useDb s" and "c \<in> set (get_lines s DEMO_USER)"
  shows "\<exists>it\<in>set (cart_items s). it_qty it = qty c"
proof -
  let ?it = "spread_item (product_map (mem_products (mem s)) (productId c)) (qty c)"
  from assms have "?it \<in> set (cart_items s)"
    unfolding mem_items_member[OF assms(1)] by (auto simp add: get_lines_def cart_lines_def)
  then show ?thesis by (auto intro!: bexI[where x="?it"])
qed

lemma no_lines_no_items: "get_lines s DEMO_USER = [] \<Longrightarrow> cart_items s = []"
  by (auto simp add: get_lines_def cart_lines_def cart_items_def select_cart_join_def
      filter_empty_conv)

lemma checkout_clears: "get_lines (snd (checkout s rnd now)) DEMO_USER = []"
  by (simp add: get_lines_def checkout_lines filter_empty_conv)

lemma view_empty: "get_lines s DEMO_USER = [] \<Longrightarrow> view s = \<lparr>items = [], total = Fin 0\<rparr>"
  by (simp add: view_eq no_lines_no_items cart_total_def)

lemma post_cart_stored:
  assumes "status (fst (post_cart s b)) = 200"
  shows "\<exists>pid q. b_productId b = Some pid \<and> b_qty b = JNumber q \<and>
           (useDb s \<longrightarrow> known_product s pid) \<and>
           \<lparr>userId = DEMO_USER, productId = pid, qty = q\<rparr> \<in> set (get_lines (snd (post_cart s b)) DEMO_USER)"
proof (cases "\<exists>pid q. b_productId b = Some pid \<and> b_qty b = JNumber q \<and> pid \<noteq> [] \<and> 0 < q")
  case False
  then have "post_cart s b = (error_response 400 ''productId and qty>0 required'', s)"
    by (rule post_cart_invalid)
  with assms show ?thesis by (simp add: error_response_def)
next
  case True
  then obtain pid q where b: "b_productId b = Some pid" "b_qty b = JNumber q" "pid \<noteq> []" "0 < q"
    by blast
  show ?thesis
  proof (cases "useDb s")
    case False
    with b show ?thesis
      by (simp add: post_cart_mem get_lines_def cart_lines_def mem_upsert_member)
  next
    case db: True
    show ?thesis
    proof (cases "select_product (db s) pid")
      case None
      with db b have "post_cart s b = (error_response 404 ''Product not found'', s)"
        by (simp add: post_cart_db_unknown)
      with assms show ?thesis by (simp add: error_response_def)
    next
      case p: (Some p)
      with db have known: "known_product s pid" by (simp add: known_product_db)
      show ?thesis
      proof (cases "select_cart_line (db s) DEMO_USER pid")
        case None
        with db b p known show ?thesis
          by (simp add: post_cart_db_insert get_lines_def cart_lines_def)
      next
        case (Some e)
        then have e: "e \<in> set (db_cart (db s))" "userId (line e) = DEMO_USER" "productId (line e) = pid"
          by (auto simp add: select_cart_line_def find_Some_iff)
        let ?upd = "\<lambda>r. if c_id r = c_id e then r\<lparr>line := (line r)\<lparr>qty := q\<rparr>\<rparr> else r"
        have "\<lparr>userId = DEMO_USER, productId = pid, qty = q\<rparr>
            \<in> set (map line (map ?upd (db_cart (db s))))"
          using e by (force simp add: image_iff intro!: bexI[where x=e])
        then have "\<lparr>userId = DEMO_USER, productId = pid, qty = q\<rparr>
            \<in> set (map line (db_cart (update_qty (db s) q (c_id e))))"
          by (simp add: update_qty_def)
        with db b p known Some show ?thesis
          by (simp add: post_cart_db_update get_lines_def cart_lines_def)
      qed
    qed
  qed
qed

lemma post_cart_shows:
  assumes "status (fst (post_cart s b)) = 200"
  shows "\<exists>it\<in>set (cart_items (snd (post_cart s b))). JNumber (it_qty it) = b_qty b \<and>
           (\<forall>pid. known_product s pid \<and> b_productId b = Some pid \<longrightarrow> it_id it = Some pid)"
proof -
  let ?s' = "snd (post_cart s b)"
  from post_cart_stored[OF assms] obtain pid q where b: "b_productId b = Some pid" "b_qty b = JNumber q"
    and known: "useDb s \<longrightarrow> known_product s pid"
    and c: "\<lparr>userId = DEMO_USER, productId = pid, qty = q\<rparr> \<in> set (get_lines ?s' DEMO_USER)"
    by blast
  show ?thesis
  proof (cases "known_product s pid")
    case True
    then have "known_product ?s' (productId \<lparr>userId = DEMO_USER, productId = pid, qty = q\<rparr>)"
      by (simp add: known_product_def post_cart_catalog)
    from line_has_item[OF c this] b show ?thesis by auto
  next
    case False
    with known have "\<not> useDb ?s'" by (auto simp add: post_cart_useDb)
    from mem_line_has_item[OF this c] b False show ?thesis by auto
  qed
qed

lemma delete_cart_hides:
  assumes "it \<in> set (cart_items (snd (delete_cart s pid)))"
  shows "it_id it \<noteq> Some pid"
proof -
  from item_has_line[OF assms] obtain c where
    c: "c \<in> set (get_lines (snd (delete_cart s pid)) DEMO_USER)"
       "it_id it = Some (productId c) \<or> it_id it = None"
    by blast
  from c(1) have "productId c \<noteq> pid" by (auto simp add: get_lines_def delete_cart_lines)
  with c(2) show ?thesis by auto
qed

text \<open>
  \<^verbatim>\<open>getCart\<close> computes the view from the state it is given and stores nothing, so the
  next read shows a completed mutation: after a successful \<^verbatim>\<open>POST\<close> an item carries
  the posted quantity, and the posted product id when the catalog knows it; after a
  \<^verbatim>\<open>DELETE\<close> no item carries the deleted id; after a checkout there is no item.
\<close>

lemma next_read_shows_mutation:
  "handle s GetCart = (\<lparr>status = 200, body = CartBody (view s)\<rparr>, s) \<and>
   (status (fst (handle s (PostCart b))) = 200 \<longrightarrow>
      (\<exists>it\<in>set (items (view (snd (handle s (PostCart b))))). JNumber (it_qty it) = b_qty b \<and>
          (\<forall>pid. known_product s pid \<and> b_productId b = Some pid \<longrightarrow> it_id it = Some pid))) \<and>
   (\<forall>it\<in>set (items (view (snd (handle s (DeleteCart pid))))). it_id it \<noteq> Some pid) \<and>
   view (snd (handle s (PostCheckout rnd now))) = \<lparr>items = [], total = Fin 0\<rparr>"
proof -
  have "handle s GetCart = (\<lparr>status = 200, body = CartBody (view s)\<rparr>, s)"
    by (simp add: getCart_view)
  moreover have "\<exists>it\<in>set (items (view (snd (handle s (PostCart b))))). JNumber (it_qty it) = b_qty b \<and>
          (\<forall>pid. known_product s pid \<and> b_productId b = Some pid \<longrightarrow> it_id it = Some pid)"
    if "status (fst (handle s (PostCart b))) = 200"
    using that post_cart_shows[of s b] by (simp add: view_eq)
  moreover have "\<forall>it\<in>set (items (view (snd (handle s (DeleteCart pid))))). it_id it \<noteq> Some pid"
    using delete_cart_hides[of _ s pid] by (simp add: view_eq)
  moreover have "view (snd (handle s (PostCheckout rnd now))) = \<lparr>items = [], total = Fin 0\<rparr>"
    by (simp add: view_empty checkout_clears)
  ultimately show ?thesis by blast
qed

text \<open>The total of a view is \<^verbatim>\<open>NaN\<close> as soon as one of its items has no price, whatever
  the other items are.\<close>

lemma unpriced_item_spoils_total:
  "\<exists>it\<in>set (items (view s)). it_price it = None \<Longrightarrow> total (view s) = NaN"
  by (simp add: view_eq cart_total_unpriced)

text \<open>
  Claim C8 fails on the in-memory backend, at a state reached through the routes alone:
  after a start-up that fell back to memory, the demo user posts one \<^verbatim>\<open>p1\<close> and then
  one of the unknown product \<^verbatim>\<open>zzz\<close>. \<^verbatim>\<open>GET /api/cart\<close> then answers 200 with two
  items, \<^verbatim>\<open>p1\<close> priced 1999 in quantity 1 and an item that has a quantity and no
  price, and with the total \<^verbatim>\<open>NaN\<close> (\<^verbatim>\<open>null\<close> in the JSON answer). The total is not a
  number, so it is not the sum of \<open>price \<times> qty\<close> over the items of the view. The
  durable backend answers the second request with 404 and never comes to such a state.
\<close>

theorem view_total_is_not_a_number:
  "cart_lines mixed_cart = [\<lparr>userId = ''demo'', productId = ''p1'', qty = 1\<rparr>,
                            \<lparr>userId = ''demo'', productId = ''zzz'', qty = 1\<rparr>] \<and>
   status (fst (handle mixed_cart GetCart)) = 200 \<and>
   body (fst (handle mixed_cart GetCart)) = CartBody (view mixed_cart) \<and>
   map (\<lambda>it. (it_id it, it_price it, it_qty it)) (items (view mixed_cart))
     = [(Some ''p1'', Some 1999, 1), (None, None, 1)] \<and>
   total (view mixed_cart) = NaN \<and>
   status (fst (handle (snd (handle (initDb (Some empty_db))
        (PostCart \<lparr>b_productId = Some ''p1'', b_qty = JNumber 1\<rparr>)))
      (PostCart \<lparr>b_productId = Some ''zzz'', b_qty = JNumber 1\<rparr>))) = 404"
  by code_simp

section \<open>Checkout\<close>

lemma two_item_total:
  assumes "map (\<lambda>it. (it_price it, it_qty it)) its = [(Some 1999, 1), (Some 699, 2)]"
  shows "cart_total its = Fin 3397"
proof -
  from assms obtain x y where "its = [x, y]" "it_price x = Some 1999" "it_qty x = 1"
    "it_price y = Some 699" "it_qty y = 2"
    by (auto simp add: map_eq_Cons_conv)
  then show ?thesis by (simp add: cart_total_def)
qed

text \<open>
  Claim C7. \<^verbatim>\<open>POST /api/checkout\<close> answers 200 with a receipt whose \<^verbatim>\<open>items\<close> and
  \<^verbatim>\<open>total\<close> are those of the view just before the call; afterwards the demo user has
  no line and the view is empty. A cart with no line of the demo user checks out to
  \<^verbatim>\<open>items = []\<close> and \<^verbatim>\<open>total = 0\<close>, and items priced 1999 and 699 in quantities 1 and
  2 give the total 3397.
\<close>

theorem checkout_snapshots_and_clears:
  "fst (handle s (PostCheckout rnd now)) =
     \<lparr>status = 200,
      body = ReceiptBody \<lparr>r_id = ''rcpt_'' @ slice rnd 2 8, r_total = total (view s),
                          r_items = items (view s), r_timestamp = now\<rparr>\<rparr> \<and>
   get_lines (snd (handle s (PostCheckout rnd now))) DEMO_USER = [] \<and>
   view (snd (handle s (PostCheckout rnd now))) = \<lparr>items = [], total = Fin 0\<rparr> \<and>
   (get_lines s DEMO_USER = [] \<longrightarrow> view s = \<lparr>items = [], total = Fin 0\<rparr>) \<and>
   (map (\<lambda>it. (it_price it, it_qty it)) (items (view s)) = [(Some 1999, 1), (Some 699, 2)] \<longrightarrow>
      total (view s) = Fin 3397)"
  by (simp add: checkout_response view_eq checkout_clears no_lines_no_items two_item_total)
    (simp add: cart_total_def)

theorem checkout_snapshots_and_clears_witness:
  "get_lines (initDb None) DEMO_USER = [] \<and>
   view (initDb None) = \<lparr>items = [], total = Fin 0\<rparr> \<and>
   map (\<lambda>it. (it_price it, it_qty it)) (items (view (example_cart (initDb None))))
     = [(Some 1999, 1), (Some 699, 2)] \<and>
   total (view (example_cart (initDb None))) = Fin 3397 \<and>
   map (\<lambda>it. (it_price it, it_qty it)) (items (view (example_cart (initDb (Some empty_db)))))
     = [(Some 1999, 1), (Some 699, 2)] \<and>
   fst (handle (example_cart (initDb (Some empty_db)))
          (PostCheckout ''0.4fzyo82mvyr'' ''2025-01-01T00:00:00.000Z'')) =
     \<lparr>status = 200,
      body = ReceiptBody \<lparr>r_id = ''rcpt_4fzyo8'', r_total = Fin 3397,
                          r_items = items (view (example_cart (initDb (Some empty_db)))),
                          r_timestamp = ''2025-01-01T00:00:00.000Z''\<rparr>\<rparr> \<and>
   get_lines (snd (handle (example_cart (initDb (Some empty_db)))
          (PostCheckout ''0.4fzyo82mvyr'' ''2025-01-01T00:00:00.000Z''))) DEMO_USER = []"
proof -
  have e: "get_lines (initDb None) DEMO_USER = []" by code_simp
  have m: "map (\<lambda>it. (it_price it, it_qty it)) (items (view (example_cart (initDb None))))
      = [(Some 1999, 1), (Some 699, 2)]"
    by code_simp
  have d: "map (\<lambda>it. (it_price it, it_qty it)) (items (view (example_cart (initDb (Some empty_db)))))
      = [(Some 1999, 1), (Some 699, 2)]"
    by code_simp
  have r: "''rcpt_'' @ slice ''0.4fzyo82mvyr'' 2 8 = ''rcpt_4fzyo8''" by (simp add: slice_def)
  show ?thesis
    using e m d r
      checkout_snapshots_and_clears [of "initDb None" "''0.4fzyo82mvyr''" "''2025-01-01T00:00:00.000Z''"]
      checkout_snapshots_and_clears [of "example_cart (initDb None)" "''0.4fzyo82mvyr''"
        "''2025-01-01T00:00:00.000Z''"]
      checkout_snapshots_and_clears [of "example_cart (initDb (Some empty_db))" "''0.4fzyo82mvyr''"
        "''2025-01-01T00:00:00.000Z''"]
    by simp
qed

section \<open>One line for each user and product\<close>

lemma rows_eqI:
  "map c_id xs = map c_id ys \<Longrightarrow> map line xs = map line ys \<Longrightarrow> xs = (ys :: cart_row list)"
proof (induction xs arbitrary: ys)
  case Nil
  then show ?case by simp
next
  case (Cons x xs)
  then obtain y ys' where "ys = y # ys'" by (cases ys) auto
  with Cons show ?case by auto
qed

lemma post_cart_again:
  assumes pk: "primary_key s"
    and b: "b_productId b = Some pid" "b_qty b = JNumber q" "pid \<noteq> []" "0 < q"
    and known: "known_product s pid"
    and fixed: "mem_upsert (cart_lines s) pid q = cart_lines s"
  shows "snd (post_cart s b) = s"
proof (cases "useDb s")
  case False
  with b fixed show ?thesis by (simp add: post_cart_mem cart_lines_def)
next
  case True
  with known obtain p where p: "select_product (db s) pid = Some p"
    by (auto simp add: known_product_db)
  show ?thesis
  proof (cases "select_cart_line (db s) DEMO_USER pid")
    case None
    then have "\<forall>c\<in>set (map line (db_cart (db s))). \<not> (userId c = DEMO_USER \<and> productId c = pid)"
      unfolding select_cart_line_def by (rule find_line_None)
    then have "mem_upsert (map line (db_cart (db s))) pid q
                = map line (db_cart (db s)) @ [\<lparr>userId = DEMO_USER, productId = pid, qty = q\<rparr>]"
      by (rule mem_upsert_absent)
    with fixed True have False by (simp add: cart_lines_def)
    then show ?thesis ..
  next
    case (Some e)
    let ?upd = "\<lambda>r. if c_id r = c_id e then r\<lparr>line := (line r)\<lparr>qty := q\<rparr>\<rparr> else r"
    from pk Some have "map line (map ?upd (db_cart (db s))) = mem_upsert (map line (db_cart (db s))) pid q"
      unfolding primary_key_def select_cart_line_def by (rule update_lines)
    with fixed True have "map line (map ?upd (db_cart (db s))) = map line (db_cart (db s))"
      by (simp add: cart_lines_def)
    moreover have "map c_id (map ?upd (db_cart (db s))) = map c_id (db_cart (db s))"
      by (rule update_ids)
    ultimately have "map ?upd (db_cart (db s)) = db_cart (db s)" by (rule rows_eqI[rotated])
    then have "update_qty (db s) q (c_id e) = db s" by (simp add: update_qty_def)
    with True b p Some show ?thesis by (simp add: post_cart_db_update)
  qed
qed

lemma post_cart_primary_key:
  assumes "primary_key s"
  shows "primary_key (snd (post_cart s b))"
proof -
  have upd: "distinct (map c_id (db_cart (update_qty (db s) q rid)))" for q rid
    using assms by (simp add: update_qty_def primary_key_def update_ids del: map_map)
  have ins: "distinct (map c_id (db_cart (db s) @ [\<lparr>c_id = next_id (db s), line = l\<rparr>]))" for l
    using assms next_id_fresh[of "db s"] by (simp add: primary_key_def)
  show ?thesis
    using assms upd ins
    by (auto simp add: post_cart_def primary_key_def insert_cart_def
        split: option.splits jsval.splits sum.splits if_splits)
qed

lemma handle_primary_key:
  assumes "primary_key s"
  shows "primary_key (snd (handle s r))"
proof (cases r)
  case (PostCart b)
  with assms show ?thesis by (simp add: post_cart_primary_key)
next
  case (DeleteCart pid)
  with assms show ?thesis
    by (simp add: delete_cart_def primary_key_def delete_cart_line_def distinct_map_filter)
next
  case (PostCheckout rnd now)
  with assms show ?thesis
    by (simp add: checkout_def primary_key_def delete_cart_user_def distinct_map_filter Let_def)
qed (use assms in \<open>simp_all add: get_products_def health_def\<close>)

lemma handle_cart_unique:
  assumes pk: "primary_key s" and u: "cart_unique s"
  shows "cart_unique (snd (handle s r))"
proof (cases r)
  case (PostCart b)
  from post_cart_effect[OF pk, of b] u show ?thesis
    unfolding PostCart by (auto simp add: cart_unique_def mem_upsert_distinct)
next
  case (DeleteCart pid)
  with u show ?thesis
    by (simp add: cart_unique_def delete_cart_lines distinct_map_filter)
next
  case (PostCheckout rnd now)
  with u show ?thesis
    by (simp add: cart_unique_def checkout_lines distinct_map_filter)
qed (use u in \<open>simp_all add: get_products_def health_def\<close>)

text \<open>
  Claim C5. In a store with at most one line for each user and product (and, in the
  table, distinct row ids, which \<^verbatim>\<open>PRIMARY KEY\<close> guarantees), a valid
  \<^verbatim>\<open>POST /api/cart\<close> for a product of the catalog succeeds and leaves the demo user
  exactly one line for that product, with the posted quantity: the quantity is replaced,
  not added to. Posting the same once more changes nothing and answers the same. Every
  route keeps both the uniqueness of lines and the distinctness of row ids.
\<close>

theorem upsert_replaces_and_keeps_unique:
  assumes "cart_unique s" and "primary_key s"
    and "b_productId b = Some pid" and "b_qty b = JNumber q" and "pid \<noteq> []" and "0 < q"
    and "known_product s pid"
  shows "status (fst (handle s (PostCart b))) = 200 \<and>
         filter (\<lambda>c. productId c = pid) (get_lines (snd (handle s (PostCart b))) DEMO_USER)
           = [\<lparr>userId = DEMO_USER, productId = pid, qty = q\<rparr>] \<and>
         handle (snd (handle s (PostCart b))) (PostCart b) = handle s (PostCart b) \<and>
         cart_unique (snd (handle s r)) \<and> primary_key (snd (handle s r))"
proof -
  let ?s' = "snd (post_cart s b)"
  note b = assms(3-6)
  note first = post_cart_lines[OF assms(2) b assms(7)]
  have ok: "status (fst (post_cart s b)) = 200" by (simp add: first(1))
  have "distinct (map (\<lambda>c. (userId c, productId c)) (cart_lines s))"
    using assms(1) by (simp add: cart_unique_def)
  then have "filter (\<lambda>c. userId c = DEMO_USER \<and> productId c = pid) (mem_upsert (cart_lines s) pid q)
      = [\<lparr>userId = DEMO_USER, productId = pid, qty = q\<rparr>]"
    by (rule mem_upsert_one)
  then have one: "filter (\<lambda>c. productId c = pid) (get_lines ?s' DEMO_USER)
      = [\<lparr>userId = DEMO_USER, productId = pid, qty = q\<rparr>]"
    by (simp add: get_lines_def first(2) conj_commute)
  have pk': "primary_key ?s'" using assms(2) by (rule post_cart_primary_key)
  have known': "known_product ?s' pid" using assms(7) by (simp add: known_product_def post_cart_catalog)
  have "mem_upsert (cart_lines ?s') pid q = cart_lines ?s'"
    by (simp add: first(2) mem_upsert_idem)
  with pk' b known' have again: "snd (post_cart ?s' b) = ?s'" by (rule post_cart_again)
  from post_cart_lines(1)[OF pk' b known'] again
  have "fst (post_cart ?s' b) = fst (getCart ?s')" by simp
  with first(1) again have same: "post_cart ?s' b = post_cart s b"
    by (simp add: prod_eq_iff)
  from ok one same handle_cart_unique[OF assms(2,1)] handle_primary_key[OF assms(2)]
  show ?thesis by simp
qed

theorem upsert_replaces_and_keeps_unique_witness:
  "cart_unique two_users_db \<and> primary_key two_users_db \<and> known_product two_users_db ''p1'' \<and>
   status (fst (handle two_users_db (PostCart \<lparr>b_productId = Some ''p1'', b_qty = JNumber 5\<rparr>))) = 200 \<and>
   filter (\<lambda>c. productId c = ''p1'')
     (get_lines (snd (handle two_users_db (PostCart \<lparr>b_productId = Some ''p1'', b_qty = JNumber 5\<rparr>)))
        DEMO_USER)
     = [\<lparr>userId = DEMO_USER, productId = ''p1'', qty = 5\<rparr>] \<and>
   cart_lines (snd (handle two_users_db (PostCart \<lparr>b_productId = Some ''p1'', b_qty = JNumber 5\<rparr>)))
     = [\<lparr>userId = ''alice'', productId = ''p1'', qty = 3\<rparr>,
        \<lparr>userId = ''demo'', productId = ''p1'', qty = 5\<rparr>] \<and>
   cart_unique (snd (handle two_users_db (PostCheckout ''0.4fzyo82mvyr'' ''2025-01-01T00:00:00.000Z'')))"
proof -
  have u: "cart_unique two_users_db" by code_simp
  have pk: "primary_key two_users_db" by code_simp
  have k: "known_product two_users_db ''p1''" by code_simp
  have l: "cart_lines (snd (handle two_users_db
        (PostCart \<lparr>b_productId = Some ''p1'', b_qty = JNumber 5\<rparr>)))
      = [\<lparr>userId = ''alice'', productId = ''p1'', qty = 3\<rparr>,
         \<lparr>userId = ''demo'', productId = ''p1'', qty = 5\<rparr>]"
    by code_simp
  show ?thesis
    using u pk k l
      upsert_replaces_and_keeps_unique [OF u pk _ _ _ _ k,
        of "\<lparr>b_productId = Some ''p1'', b_qty = JNumber 5\<rparr>" 5
           "PostCheckout ''0.4fzyo82mvyr'' ''2025-01-01T00:00:00.000Z''"]
    by simp
qed

section \<open>Validation of the quantity\<close>

lemma post_cart_400:
  "(status (fst (post_cart s b)) = 400) =
     (b_productId b = None \<or> b_productId b = Some [] \<or> \<not> positive_number (b_qty b))"
  by (auto simp add: post_cart_def error_response_def insert_cart_def
      split: option.splits jsval.splits sum.splits)

lemma post_cart_known_ok:
  assumes "positive_number (b_qty b)" and "b_productId b = Some pid" and "pid \<noteq> []"
    and "known_product s pid"
  shows "status (fst (post_cart s b)) = 200"
  using assms
  by (auto simp add: post_cart_def insert_cart_def known_product_def catalog_def select_product_def
      split: option.splits jsval.splits sum.splits)

text \<open>
  Claim C4, as the code has it. \<^verbatim>\<open>POST /api/cart\<close> answers 400, leaving the state as it
  was, exactly when \<^verbatim>\<open>productId\<close> is absent or empty or \<^verbatim>\<open>qty\<close> is not a number above
  zero. The guard asks for a number, not for an integer: every positive number passes
  it and, for a product of the catalog, is stored.
\<close>

theorem post_cart_rejects_non_positive:
  "(status (fst (handle s (PostCart b))) = 400) =
     (b_productId b = None \<or> b_productId b = Some [] \<or> \<not> positive_number (b_qty b)) \<and>
   (status (fst (handle s (PostCart b))) = 400 \<longrightarrow>
      handle s (PostCart b) = (error_response 400 ''productId and qty>0 required'', s)) \<and>
   (positive_number (b_qty b) \<and> b_productId b = Some pid \<and> pid \<noteq> [] \<and> known_product s pid \<longrightarrow>
      status (fst (handle s (PostCart b))) = 200)"
proof -
  have "post_cart s b = (error_response 400 ''productId and qty>0 required'', s)"
    if "status (fst (post_cart s b)) = 400"
  proof -
    from that have "\<not> (\<exists>pid q. b_productId b = Some pid \<and> b_qty b = JNumber q \<and> pid \<noteq> [] \<and> 0 < q)"
      by (auto simp add: post_cart_400)
    then show ?thesis by (rule post_cart_invalid)
  qed
  then show ?thesis by (auto simp add: post_cart_400 post_cart_known_ok)
qed

theorem post_cart_rejects_non_positive_witness:
  "\<not> positive_number (JNumber 0) \<and>
   handle two_users_db (PostCart \<lparr>b_productId = Some ''p1'', b_qty = JNumber 0\<rparr>)
     = (error_response 400 ''productId and qty>0 required'', two_users_db) \<and>
   \<not> positive_number (JString ''2'') \<and>
   handle two_users_mem (PostCart \<lparr>b_productId = Some ''p1'', b_qty = JString ''2''\<rparr>)
     = (error_response 400 ''productId and qty>0 required'', two_users_mem) \<and>
   positive_number (JNumber (3 / 2)) \<and> known_product two_users_mem ''p1'' \<and>
   status (fst (handle two_users_mem (PostCart \<lparr>b_productId = Some ''p1'', b_qty = JNumber (3 / 2)\<rparr>)))
     = 200"
proof -
  have k: "known_product two_users_mem ''p1''" by code_simp
  show ?thesis
    using k
      post_cart_rejects_non_positive [of two_users_db "\<lparr>b_productId = Some ''p1'', b_qty = JNumber 0\<rparr>"]
      post_cart_rejects_non_positive [of two_users_mem
        "\<lparr>b_productId = Some ''p1'', b_qty = JString ''2''\<rparr>"]
      post_cart_rejects_non_positive [of two_users_mem
        "\<lparr>b_productId = Some ''p1'', b_qty = JNumber (3 / 2)\<rparr>" "''p1''"]
    by simp
qed

text \<open>
  Claim C4 as stated fails: \<open>1.5\<close> is not a positive integer, and both backends accept
  it and store it.
\<close>

theorem fractional_qty_is_accepted:
  "\<not> positive_integer (JNumber (3 / 2)) \<and>
   status (fst (handle (initDb (Some empty_db))
      (PostCart \<lparr>b_productId = Some ''p1'', b_qty = JNumber (3 / 2)\<rparr>))) = 200 \<and>
   cart_lines (initDb (Some empty_db)) = [] \<and>
   cart_lines (snd (handle (initDb (Some empty_db))
      (PostCart \<lparr>b_productId = Some ''p1'', b_qty = JNumber (3 / 2)\<rparr>)))
     = [\<lparr>userId = ''demo'', productId = ''p1'', qty = 3 / 2\<rparr>] \<and>
   status (fst (handle (initDb None)
      (PostCart \<lparr>b_productId = Some ''p1'', b_qty = JNumber (3 / 2)\<rparr>))) = 200 \<and>
   cart_lines (initDb None) = [] \<and>
   cart_lines (snd (handle (initDb None)
      (PostCart \<lparr>b_productId = Some ''p1'', b_qty = JNumber (3 / 2)\<rparr>)))
     = [\<lparr>userId = ''demo'', productId = ''p1'', qty = 3 / 2\<rparr>]"
  by code_simp

section \<open>A product the catalog does not have\<close>

text \<open>The SQL branch looks the product up first (\<^verbatim>\<open>// ensure product exists\<close>) and
  answers 404 without touching the table.\<close>

lemma durable_rejects_unknown_product:
  assumes "useDb s" and "b_productId b = Some pid" and "b_qty b = JNumber q" and "0 < q"
    and "pid \<noteq> []" and "\<not> known_product s pid"
  shows "handle s (PostCart b) = (error_response 404 ''Product not found'', s)"
  using assms by (simp add: post_cart_db_unknown known_product_db)

text \<open>The in-memory branch has no such lookup: it stores the line for any product id.\<close>

lemma memory_stores_any_product:
  assumes "\<not> useDb s" and "b_productId b = Some pid" and "b_qty b = JNumber q" and "0 < q"
    and "pid \<noteq> []"
  shows "status (fst (handle s (PostCart b))) = 200 \<and>
         \<lparr>userId = DEMO_USER, productId = pid, qty = q\<rparr> \<in> set (cart_lines (snd (handle s (PostCart b))))"
  using assms by (simp add: post_cart_mem cart_lines_def mem_upsert_member)

text \<open>The inner join of the SQL branch leaves out a cart row that has no product: every
  item of the durable view carries the id of a product of the catalog.\<close>

lemma durable_view_drops_orphans:
  assumes "useDb s" and "it \<in> set (items (view s))"
  shows "\<exists>pid. it_id it = Some pid \<and> known_product s pid \<and> it_price it \<noteq> None"
  using assms
  by (auto simp add: view_eq cart_items_def join_member known_product_def catalog_def find_None_iff)

text \<open>The in-memory branch maps every line of the demo user to an item; a line without
  a product becomes an item with the quantity alone, and the total is \<^verbatim>\<open>NaN\<close>.\<close>

lemma memory_view_keeps_orphans:
  assumes "\<not> useDb s" and "c \<in> set (get_lines s DEMO_USER)" and "\<not> known_product s (productId c)"
  shows "\<lparr>it_id = None, it_name = None, it_price = None, it_image = None, it_qty = qty c\<rparr>
           \<in> set (items (view s)) \<and> total (view s) = NaN"
proof -
  from assms(1,3) have "product_map (mem_products (mem s)) (productId c) = None"
    by (simp add: known_product_def catalog_def product_map_None)
  then have "spread_item (product_map (mem_products (mem s)) (productId c)) (qty c)
      = \<lparr>it_id = None, it_name = None, it_price = None, it_image = None, it_qty = qty c\<rparr>"
    by (simp add: spread_item_def)
  moreover from assms(1,2) have
    "spread_item (product_map (mem_products (mem s)) (productId c)) (qty c) \<in> set (cart_items s)"
    unfolding mem_items_member[OF assms(1)] by (auto simp add: get_lines_def cart_lines_def)
  ultimately have m: "\<lparr>it_id = None, it_name = None, it_price = None, it_image = None, it_qty = qty c\<rparr>
      \<in> set (cart_items s)" by simp
  then have "cart_total (cart_items s) = NaN" by (auto intro!: cart_total_unpriced bexI[OF _ m])
  with m show ?thesis by (simp add: view_eq)
qed

text \<open>
  Claim C1 fails on the in-memory backend. After a start-up that fell back to memory,
  a \<^verbatim>\<open>POST /api/cart\<close> with the unknown product id \<^verbatim>\<open>zzz\<close> and quantity 1 is answered
  with 200 and stored; the claim asks for 404 and an unchanged store, which is what the
  SQL branch does at the same request.
\<close>

theorem memory_accepts_unknown_product:
  "\<not> known_product (initDb None) ''zzz'' \<and>
   cart_lines (initDb None) = [] \<and>
   handle (initDb None) (PostCart \<lparr>b_productId = Some ''zzz'', b_qty = JNumber 1\<rparr>) =
     (\<lparr>status = 200,
       body = CartBody \<lparr>items = [\<lparr>it_id = None, it_name = None, it_price = None,
                                   it_image = None, it_qty = 1\<rparr>],
                         total = NaN\<rparr>\<rparr>,
      \<lparr>useDb = False, db = empty_db,
       mem = \<lparr>mem_products = seed,
              mem_cart = [\<lparr>userId = ''demo'', productId = ''zzz'', qty = 1\<rparr>]\<rparr>\<rparr>) \<and>
   handle (initDb (Some empty_db)) (PostCart \<lparr>b_productId = Some ''zzz'', b_qty = JNumber 1\<rparr>) =
     (\<lparr>status = 404, body = ErrorBody ''Product not found''\<rparr>, initDb (Some empty_db))"
  by code_simp

text \<open>
  Claim C2 fails at the same request. The two backends start from the same state (the
  seeded catalog, an empty cart); the durable one answers 404 and stores nothing, the
  in-memory one answers 200 and stores the line, and the next \<^verbatim>\<open>GET /api/cart\<close>
  differs as well.
\<close>

theorem backends_differ_on_unknown_product:
  "same_state (initDb (Some empty_db)) (initDb None) \<and>
   status (fst (handle (initDb (Some empty_db))
      (PostCart \<lparr>b_productId = Some ''zzz'', b_qty = JNumber 1\<rparr>))) = 404 \<and>
   status (fst (handle (initDb None)
      (PostCart \<lparr>b_productId = Some ''zzz'', b_qty = JNumber 1\<rparr>))) = 200 \<and>
   fst (handle (initDb (Some empty_db)) (PostCart \<lparr>b_productId = Some ''zzz'', b_qty = JNumber 1\<rparr>))
     \<noteq> fst (handle (initDb None) (PostCart \<lparr>b_productId = Some ''zzz'', b_qty = JNumber 1\<rparr>)) \<and>
   view (snd (handle (initDb (Some empty_db))
      (PostCart \<lparr>b_productId = Some ''zzz'', b_qty = JNumber 1\<rparr>)))
     = \<lparr>items = [], total = Fin 0\<rparr> \<and>
   view (snd (handle (initDb None)
      (PostCart \<lparr>b_productId = Some ''zzz'', b_qty = JNumber 1\<rparr>)))
     = \<lparr>items = [\<lparr>it_id = None, it_name = None, it_price = None, it_image = None, it_qty = 1\<rparr>],
        total = NaN\<rparr>"
  by code_simp

text \<open>
  Claim C3 fails on the in-memory backend. In the state the request above leaves, the
  demo user has a line whose product the catalog does not have; \<^verbatim>\<open>GET /api/cart\<close> does
  not omit it but answers with an item that has a quantity and nothing else, and with
  the total \<^verbatim>\<open>NaN\<close>. The SQL join omits such a row.
\<close>

theorem memory_view_shows_orphan_line:
  "get_lines (snd (handle (initDb None) (PostCart \<lparr>b_productId = Some ''p9'', b_qty = JNumber 2\<rparr>)))
     DEMO_USER = [\<lparr>userId = ''demo'', productId = ''p9'', qty = 2\<rparr>] \<and>
   \<not> known_product (snd (handle (initDb None)
       (PostCart \<lparr>b_productId = Some ''p9'', b_qty = JNumber 2\<rparr>))) ''p9'' \<and>
   handle (snd (handle (initDb None) (PostCart \<lparr>b_productId = Some ''p9'', b_qty = JNumber 2\<rparr>)))
     GetCart =
     (\<lparr>status = 200,
       body = CartBody \<lparr>items = [\<lparr>it_id = None, it_name = None, it_price = None,
                                   it_image = None, it_qty = 2\<rparr>],
                         total = NaN\<rparr>\<rparr>,
      snd (handle (initDb None) (PostCart \<lparr>b_productId = Some ''p9'', b_qty = JNumber 2\<rparr>))) \<and>
   \<not> known_product orphan_db ''p9'' \<and>
   map it_id (items (view orphan_db)) = [Some ''p1''] \<and>
   total (view orphan_db) = Fin 1999"
  by code_simp

section \<open>Where the two backends agree\<close>

lemma filter_single_product:
  "distinct (map p_id ps) \<Longrightarrow> p \<in> set ps \<Longrightarrow> filter (\<lambda>x. p_id x = p_id p) ps = [p]"
proof (induction ps)
  case Nil
  then show ?case by simp
next
  case (Cons a ps)
  show ?case
  proof (cases "a = p")
    case True
    from Cons.prems(1) have "\<forall>x\<in>set ps. p_id x \<noteq> p_id a" by (auto simp add: image_iff)
    then have "filter (\<lambda>x. p_id x = p_id a) ps = []" by (simp add: filter_empty_conv)
    with True show ?thesis by simp
  next
    case False
    with Cons.prems have p: "p \<in> set ps" by simp
    with Cons.prems(1) have "p_id a \<noteq> p_id p" by (auto simp add: image_iff)
    with Cons p show ?thesis by simp
  qed
qed

lemma product_map_distinct:
  assumes "distinct (map p_id ps)" and "p \<in> set ps"
  shows "product_map ps (p_id p) = Some p"
proof -
  have "distinct (map fst (rev (map (\<lambda>p. (p_id p, p)) ps)))"
    using assms(1) by (simp add: rev_map[symmetric] comp_def)
  moreover have "(p_id p, p) \<in> set (rev (map (\<lambda>p. (p_id p, p)) ps))"
    using assms(2) by auto
  ultimately show ?thesis unfolding product_map_def by (rule map_of_is_SomeI)
qed

text \<open>With distinct product ids, a cart row whose product exists joins with that one
  product, and the joined row is the item the in-memory branch builds.\<close>

lemma join_rows_spread:
  assumes d: "distinct (map p_id ps)"
    and k: "\<forall>r\<in>set rs. \<exists>p\<in>set ps. p_id p = productId (line r)"
  shows "concat (map (\<lambda>c. map (\<lambda>p. \<lparr>it_id = Some (productId (line c)), it_name = Some (p_name p),
                                 it_price = Some (p_price p), it_image = Some (p_image p),
                                 it_qty = qty (line c)\<rparr>)
                          (filter (\<lambda>p. p_id p = productId (line c)) ps)) rs)
     = map (\<lambda>c. spread_item (product_map ps (productId (line c))) (qty (line c))) rs"
  using k
proof (induction rs)
  case Nil
  then show ?case by simp
next
  case (Cons r rs)
  then obtain p where p: "p \<in> set ps" "p_id p = productId (line r)" by auto
  from d p(1) have "filter (\<lambda>x. p_id x = p_id p) ps = [p]" by (rule filter_single_product)
  moreover from d p(1) have "product_map ps (p_id p) = Some p" by (rule product_map_distinct)
  ultimately show ?case
    using p(2) Cons by (simp add: spread_item_def)
qed

lemma corresponds_items:
  assumes "corresponds sd sm"
  shows "mset (cart_items sd) = mset (cart_items sm)"
proof -
  from assms have u: "useDb sd" "\<not> useDb sm"
    and ps: "db_products (db sd) = mem_products (mem sm)"
    and ls: "map line (db_cart (db sd)) = mem_cart (mem sm)"
    and d: "distinct (map p_id (db_products (db sd)))"
    and k: "list_all (\<lambda>c. known_product sd (productId c)) (get_lines sd DEMO_USER)"
    by (auto simp add: corresponds_def same_state_def)
  let ?rs = "sort_key (\<lambda>c. productId (line c)) (filter (\<lambda>c. userId (line c) = DEMO_USER) (db_cart (db sd)))"
  let ?F = "\<lambda>c. spread_item (product_map (db_products (db sd)) (productId c)) (qty c)"
  from k u(1) have "\<forall>r\<in>set ?rs. \<exists>p\<in>set (db_products (db sd)). p_id p = productId (line r)"
    by (auto simp add: list_all_iff get_lines_def cart_lines_def known_product_def catalog_def
        find_None_iff)
  from join_rows_spread[OF d this]
  have "select_cart_join (db sd) DEMO_USER = map (\<lambda>c. ?F (line c)) ?rs"
    by (simp add: select_cart_join_def)
  then have "mset (cart_items sd)
      = image_mset (\<lambda>c. ?F (line c)) (mset (filter (\<lambda>c. userId (line c) = DEMO_USER) (db_cart (db sd))))"
    using u(1) by (simp add: cart_items_def)
  moreover have "cart_items sm
      = map (\<lambda>c. ?F (line c)) (filter (\<lambda>c. userId (line c) = DEMO_USER) (db_cart (db sd)))"
    using u(2) ps ls[symmetric] by (simp add: cart_items_def filter_map comp_def)
  ultimately show ?thesis by simp
qed

lemma corresponds_known: "corresponds sd sm \<Longrightarrow> known_product sd pid = known_product sm pid"
  by (simp add: corresponds_def same_state_def known_product_def catalog_def)

lemma correspondsI:
  assumes "corresponds sd sm"
    and "useDb sd' = useDb sd" and "useDb sm' = useDb sm"
    and "db_products (db sd') = db_products (db sd)" and "mem_products (mem sm') = mem_products (mem sm)"
    and "primary_key sd'"
    and "cart_lines sd' = cart_lines sm'"
    and "\<forall>c\<in>set (get_lines sd' DEMO_USER). known_product sd (productId c)"
  shows "corresponds sd' sm'"
  using assms
  by (auto simp add: corresponds_def same_state_def cart_lines_def known_product_def catalog_def
      list_all_iff)

lemma mem_upsert_known:
  assumes "c \<in> set (mem_upsert cs pid q)" and "userId c = DEMO_USER"
    and "\<forall>x\<in>set cs. userId x = DEMO_USER \<longrightarrow> K (productId x)" and "K pid"
  shows "K (productId c)"
proof -
  from assms(1) have "(userId c, productId c) \<in> set (map (\<lambda>c. (userId c, productId c)) (mem_upsert cs pid q))"
    by auto
  then have "(userId c, productId c) = (DEMO_USER, pid) \<or>
      (userId c, productId c) \<in> set (map (\<lambda>c. (userId c, productId c)) cs)"
    unfolding mem_upsert_keys by simp
  with assms(2-4) show ?thesis by auto
qed

lemma handle_frame:
  "useDb (snd (handle s r)) = useDb s \<and>
   db_products (db (snd (handle s r))) = db_products (db s) \<and>
   mem_products (mem (snd (handle s r))) = mem_products (mem s)"
proof (cases r)
  case (PostCart b)
  then show ?thesis
    by (auto simp add: post_cart_def update_qty_def insert_cart_def
        split: option.splits jsval.splits sum.splits if_splits)
next
  case (DeleteCart pid)
  then show ?thesis by (simp add: delete_cart_def delete_cart_line_def)
next
  case (PostCheckout rnd now)
  then show ?thesis by (simp add: checkout_def delete_cart_user_def Let_def)
qed (simp_all add: get_products_def health_def)

lemma delete_cart_response:
  "fst (delete_cart s pid) = \<lparr>status = 200, body = CartBody (view (snd (delete_cart s pid)))\<rparr>"
proof -
  obtain s' where "delete_cart s pid = getCart s'" using delete_cart_getCart by blast
  then show ?thesis by (simp add: getCart_view)
qed

text \<open>The lines of the two stores stay equal under every request that is not a valid
  \<^verbatim>\<open>POST\<close> for an unknown product, and the demo user's lines stay on known products.\<close>

lemma corresponds_lines:
  assumes c: "corresponds sd sm" and r: "\<not> asks_unknown_product sd r"
  shows "cart_lines (snd (handle sd r)) = cart_lines (snd (handle sm r)) \<and>
         (\<forall>c\<in>set (get_lines (snd (handle sd r)) DEMO_USER). known_product sd (productId c))"
proof -
  from c have u: "useDb sd" "\<not> useDb sm" and pk: "primary_key sd"
    and ls: "cart_lines sd = cart_lines sm"
    and k: "\<forall>c\<in>set (cart_lines sd). userId c = DEMO_USER \<longrightarrow> known_product sd (productId c)"
    by (auto simp add: corresponds_def same_state_def cart_lines_def get_lines_def list_all_iff)
  show ?thesis
  proof (cases r)
    case (PostCart b)
    show ?thesis
    proof (cases "\<exists>pid q. b_productId b = Some pid \<and> b_qty b = JNumber q \<and> pid \<noteq> [] \<and> 0 < q")
      case False
      then have "post_cart sd b = (error_response 400 ''productId and qty>0 required'', sd)"
        and "post_cart sm b = (error_response 400 ''productId and qty>0 required'', sm)"
        by (rule post_cart_invalid)+
      with ls k show ?thesis unfolding PostCart by (simp add: get_lines_def)
    next
      case True
      then obtain pid q where b: "b_productId b = Some pid" "b_qty b = JNumber q" "pid \<noteq> []" "0 < q"
        by blast
      with r PostCart have known: "known_product sd pid" by (simp add: asks_unknown_product_def)
      from post_cart_lines(2)[OF pk b known]
      have d: "cart_lines (snd (post_cart sd b)) = mem_upsert (cart_lines sd) pid q" .
      from u(2) b have m: "cart_lines (snd (post_cart sm b)) = mem_upsert (cart_lines sm) pid q"
        by (simp add: post_cart_mem cart_lines_def)
      have "known_product sd (productId x)"
        if "x \<in> set (mem_upsert (cart_lines sd) pid q)" "userId x = DEMO_USER" for x
        using that k known by (rule mem_upsert_known)
      with d m ls show ?thesis unfolding PostCart by (simp add: get_lines_def)
    qed
  next
    case (DeleteCart pid)
    with ls k show ?thesis by (simp add: delete_cart_lines get_lines_def)
  next
    case (PostCheckout rnd now)
    with ls k show ?thesis by (simp add: checkout_lines get_lines_def)
  qed (use ls k in \<open>simp_all add: get_products_def health_def get_lines_def\<close>)
qed

lemma corresponds_step:
  assumes c: "corresponds sd sm" and r: "\<not> asks_unknown_product sd r"
  shows "corresponds (snd (handle sd r)) (snd (handle sm r))"
proof -
  from c have pk: "primary_key sd" by (simp add: corresponds_def)
  from corresponds_lines[OF c r] handle_primary_key[OF pk, of r] handle_frame[of sd r]
    handle_frame[of sm r]
  show ?thesis by (intro correspondsI[OF c]) simp_all
qed

text \<open>
  From corresponding states, and for every request but a guard-passing
  \<^verbatim>\<open>POST /api/cart\<close> for a product that is not in the catalog, the two backends answer
  with the same status and with bodies that are alike, and the states correspond again
  afterwards. The items may come in different orders: by product id from the database,
  in the order of their first insertion from memory.
\<close>

lemma backends_alike_on_known_products:
  assumes c: "corresponds sd sm" and r: "\<not> asks_unknown_product sd r"
  shows "status (fst (handle sd r)) = status (fst (handle sm r)) \<and>
         alike (body (fst (handle sd r))) (body (fst (handle sm r))) \<and>
         corresponds (snd (handle sd r)) (snd (handle sm r))"
proof -
  note step = corresponds_step[OF c r]
  from c have u: "useDb sd" "\<not> useDb sm" and pk: "primary_key sd"
    and ps: "db_products (db sd) = mem_products (mem sm)"
    by (auto simp add: corresponds_def same_state_def)
  have "status (fst (handle sd r)) = status (fst (handle sm r)) \<and>
        alike (body (fst (handle sd r))) (body (fst (handle sm r)))"
  proof (cases r)
    case GetProducts
    with u ps show ?thesis by (simp add: get_products_def)
  next
    case (PostCart b)
    show ?thesis
    proof (cases "\<exists>pid q. b_productId b = Some pid \<and> b_qty b = JNumber q \<and> pid \<noteq> [] \<and> 0 < q")
      case False
      then have "post_cart sd b = (error_response 400 ''productId and qty>0 required'', sd)"
        and "post_cart sm b = (error_response 400 ''productId and qty>0 required'', sm)"
        by (rule post_cart_invalid)+
      then show ?thesis unfolding PostCart by (simp add: error_response_def)
    next
      case True
      then obtain pid q where b: "b_productId b = Some pid" "b_qty b = JNumber q" "pid \<noteq> []" "0 < q"
        by blast
      with r PostCart have known: "known_product sd pid" by (simp add: asks_unknown_product_def)
      from post_cart_lines(1)[OF pk b known]
      have "fst (post_cart sd b) = \<lparr>status = 200, body = CartBody (view (snd (post_cart sd b)))\<rparr>"
        by (simp add: getCart_view)
      moreover from u(2) b
      have "fst (post_cart sm b) = \<lparr>status = 200, body = CartBody (view (snd (post_cart sm b)))\<rparr>"
        by (simp add: post_cart_mem getCart_view)
      moreover from step
      have "mset (items (view (snd (post_cart sd b)))) = mset (items (view (snd (post_cart sm b))))"
        unfolding PostCart by (simp add: view_eq corresponds_items)
      ultimately show ?thesis unfolding PostCart by simp
    qed
  next
    case (DeleteCart pid)
    from step
    have "mset (items (view (snd (delete_cart sd pid)))) = mset (items (view (snd (delete_cart sm pid))))"
      unfolding DeleteCart by (simp add: view_eq corresponds_items)
    then show ?thesis unfolding DeleteCart by (simp add: delete_cart_response)
  next
    case GetCart
    with c show ?thesis by (simp add: getCart_view view_eq corresponds_items)
  next
    case (PostCheckout rnd now)
    with c show ?thesis by (simp add: checkout_response corresponds_items)
  next
    case GetHealth
    then show ?thesis by (simp add: health_def)
  qed
  with step show ?thesis by simp
qed

lemma initial_states_correspond: "corresponds (initDb (Some empty_db)) (initDb None)"
  by code_simp

end
